theory Spec2Isabelle
  imports Main "HOL-Library.Word" "HOL-Library.List_Lexorder" "HOL-Library.Sublist"
    "HOL-Library.Multiset"
begin

section \<open>Values of the platform\<close>

text \<open>
  A JavaScript string is a sequence of 16-bit code units; \<open>includes\<close>, \<open>startsWith\<close>,
  regular expressions without the \<open>u\<close> flag and the relational operators all work on
  code units. Header values are byte strings (every code unit is below 256), so they are
  modelled as \<^typ>\<open>string\<close>, whose characters are exactly the 256 byte values. An
  \<open>ArrayBuffer\<close> is a list of bytes.
\<close>

type_synonym code_unit = "16 word"
type_synonym jsstring = "code_unit list"
type_synonym byte = "8 word"

definition cu :: "char \<Rightarrow> code_unit" where
  "cu c = of_char c"

definition str :: "string \<Rightarrow> jsstring" where
  "str s = map cu s"

text \<open>
  What a \<open>throw\<close> can carry: an \<open>Error\<close> instance with its \<open>name\<close> and \<open>message\<close>,
  Hono's \<open>HTTPException\<close> (an \<open>Error\<close> subclass) with its status and message, or a value
  that is not an \<open>Error\<close> instance.
\<close>

datatype thrown =
    ErrorObj string string
  | HTTPException nat string
  | OtherValue

fun instanceof_Error :: "thrown \<Rightarrow> bool" where
  "instanceof_Error (ErrorObj n m) = True"
| "instanceof_Error (HTTPException s m) = True"
| "instanceof_Error OtherValue = False"

fun error_name :: "thrown \<Rightarrow> string" where
  "error_name (ErrorObj n m) = n"
| "error_name (HTTPException s m) = ''Error''"
| "error_name OtherValue = []"

fun error_message :: "thrown \<Rightarrow> string" where
  "error_message (ErrorObj n m) = m"
| "error_message (HTTPException s m) = m"
| "error_message OtherValue = []"

subsection \<open>String.prototype.startsWith and String.prototype.includes\<close>

fun startsWith :: "'a list \<Rightarrow> 'a list \<Rightarrow> bool" where
  "startsWith s [] = True"
| "startsWith [] (p # ps) = False"
| "startsWith (c # cs) (p # ps) = (c = p \<and> startsWith cs ps)"

fun includes_str :: "'a list \<Rightarrow> 'a list \<Rightarrow> bool" where
  "includes_str [] p = (p = [])"
| "includes_str (c # cs) p = (startsWith (c # cs) p \<or> includes_str cs p)"

section \<open>Key Validator (index.ts)\<close>

text \<open>
  \<open>path.replace(/^\/images\//, "")\<close> removes the prefix \<open>/images/\<close> when the path starts
  with it and leaves every other path as it is; \<open>key || null\<close> turns the empty string
  into \<open>null\<close>.
\<close>

definition extractKeyFromPath :: "jsstring \<Rightarrow> jsstring option" where
  "extractKeyFromPath path =
     (let key = (if startsWith path (str ''/images/'')
                 then drop (length (str ''/images/'')) path else path)
      in if key = [] then None else Some key)"

text \<open>The class \<open>[a-zA-Z0-9\-_\/.]\<close> of \<open>safePattern\<close>, one code unit at a time.\<close>

definition safeClass :: "code_unit \<Rightarrow> bool" where
  "safeClass c =
     ((cu CHR ''a'' \<le> c \<and> c \<le> cu CHR ''z'') \<or>
      (cu CHR ''A'' \<le> c \<and> c \<le> cu CHR ''Z'') \<or>
      (cu CHR ''0'' \<le> c \<and> c \<le> cu CHR ''9'') \<or>
      c = cu CHR ''-'' \<or> c = cu CHR ''_'' \<or> c = cu CHR ''/'' \<or> c = cu CHR ''.'')"

text \<open>
  \<open>/^[a-zA-Z0-9\-_\/.]+$/.test(key)\<close>: without the \<open>m\<close> flag \<open>^\<close> and \<open>$\<close> match only at
  the two ends of the input, so the whole key is one or more code units of the class.
\<close>

fun class_plus :: "(code_unit \<Rightarrow> bool) \<Rightarrow> jsstring \<Rightarrow> bool" where
  "class_plus cls [] = False"
| "class_plus cls [c] = cls c"
| "class_plus cls (c # d # ds) = (cls c \<and> class_plus cls (d # ds))"

definition safePattern_test :: "jsstring \<Rightarrow> bool" where
  "safePattern_test key = class_plus safeClass key"

definition validateKey :: "jsstring \<Rightarrow> bool" where
  "validateKey key =
     (if key = [] \<or> includes_str key (str ''..'') \<or> startsWith key (str ''/'') \<or>
         includes_str key (str ''//'')
      then False
      else safePattern_test key)"

subsection \<open>The ContentKey invariants of the specification\<close>

text \<open>
  The character set \<open>[a-zA-Z0-9\-_/.]\<close> of section 3 as a set of code units. "Contains"
  is \<^const>\<open>sublist\<close> (a contiguous run) and "starts with" is \<^const>\<open>prefix\<close>.
\<close>

definition allowed_chars :: "code_unit set" where
  "allowed_chars =
     {cu CHR ''a'' .. cu CHR ''z''} \<union> {cu CHR ''A'' .. cu CHR ''Z''} \<union>
     {cu CHR ''0'' .. cu CHR ''9''} \<union>
     {cu CHR ''-'', cu CHR ''_'', cu CHR ''/'', cu CHR ''.''}"

section \<open>Content Sniffer (index.ts)\<close>

text \<open>
  \<open>new Uint8Array(buffer.slice(0, 16))\<close> holds the first 16 bytes, or all of a shorter
  buffer. Reading a typed array past its end gives \<open>undefined\<close>, which is not \<open>===\<close> to
  any number: \<open>at\<close> returns \<open>None\<close> there.
\<close>

definition slice16 :: "byte list \<Rightarrow> byte list" where
  "slice16 buffer = take 16 buffer"

definition at :: "byte list \<Rightarrow> nat \<Rightarrow> byte option" where
  "at bytes i = (if i < length bytes then Some (bytes ! i) else None)"

definition unsupported :: thrown where
  "unsupported = ErrorObj ''Error'' ''Unsupported file type''"

definition detectMimeType :: "byte list \<Rightarrow> thrown + string" where
  "detectMimeType buffer =
     (let bytes = slice16 buffer in
      if at bytes 0 = Some 0xff \<and> at bytes 1 = Some 0xd8 \<and> at bytes 2 = Some 0xff
      then Inr ''image/jpeg''
      else if at bytes 0 = Some 0x89 \<and> at bytes 1 = Some 0x50 \<and>
              at bytes 2 = Some 0x4e \<and> at bytes 3 = Some 0x47
      then Inr ''image/png''
      else if at bytes 0 = Some 0x47 \<and> at bytes 1 = Some 0x49 \<and> at bytes 2 = Some 0x46
      then Inr ''image/gif''
      else if at bytes 8 = Some 0x57 \<and> at bytes 9 = Some 0x45 \<and>
              at bytes 10 = Some 0x42 \<and> at bytes 11 = Some 0x50
      then Inr ''image/webp''
      else if at bytes 4 = Some 0x66 \<and> at bytes 5 = Some 0x74 \<and>
              at bytes 6 = Some 0x79 \<and> at bytes 7 = Some 0x70 \<and>
              ((at bytes 8 = Some 0x61 \<and> at bytes 9 = Some 0x76 \<and>
                at bytes 10 = Some 0x69 \<and> at bytes 11 = Some 0x66) \<or>
               (at bytes 8 = Some 0x61 \<and> at bytes 9 = Some 0x76 \<and>
                at bytes 10 = Some 0x69 \<and> at bytes 11 = Some 0x73))
      then Inr ''image/avif''
      else Inl unsupported)"

subsection \<open>The signature table of the specification\<close>

text \<open>
  The table of section 4.5, as the specification words it: a signature is a run of
  bytes at an offset, a row is a list of alternatives of such runs together with the
  MIME type, and the rows are tried in the order of the table on the first 16 bytes.
\<close>

definition run_at :: "nat \<Rightarrow> byte list \<Rightarrow> byte list \<Rightarrow> bool" where
  "run_at off pat bs = (take (length pat) (drop off bs) = pat)"

definition is_jpeg :: "byte list \<Rightarrow> bool" where
  "is_jpeg bs = run_at 0 [0xFF, 0xD8, 0xFF] bs"

definition is_png :: "byte list \<Rightarrow> bool" where
  "is_png bs = run_at 0 [0x89, 0x50, 0x4E, 0x47] bs"

definition is_gif :: "byte list \<Rightarrow> bool" where
  "is_gif bs = run_at 0 [0x47, 0x49, 0x46] bs"

definition is_webp :: "byte list \<Rightarrow> bool" where
  "is_webp bs = run_at 8 [0x57, 0x45, 0x42, 0x50] bs"

definition is_avif :: "byte list \<Rightarrow> bool" where
  "is_avif bs =
     (run_at 4 [0x66, 0x74, 0x79, 0x70] bs \<and>
      (run_at 8 [0x61, 0x76, 0x69, 0x66] bs \<or> run_at 8 [0x61, 0x76, 0x69, 0x73] bs))"

definition signature_table :: "((byte list \<Rightarrow> bool) \<times> string) list" where
  "signature_table =
     [(is_jpeg, ''image/jpeg''), (is_png, ''image/png''), (is_gif, ''image/gif''),
      (is_webp, ''image/webp''), (is_avif, ''image/avif'')]"

definition table_lookup :: "byte list \<Rightarrow> string option" where
  "table_lookup buffer =
     map_option snd (find (\<lambda>row. fst row (take 16 buffer)) signature_table)"

definition no_signature :: "byte list \<Rightarrow> bool" where
  "no_signature buffer =
     (\<not> is_jpeg (take 16 buffer) \<and> \<not> is_png (take 16 buffer) \<and> \<not> is_gif (take 16 buffer) \<and>
      \<not> is_webp (take 16 buffer) \<and> \<not> is_avif (take 16 buffer))"

section \<open>URLs of the platform\<close>

subsection \<open>UTF-8 and percent-encoding\<close>

text \<open>
  The code points of a string: a high surrogate followed by a low surrogate is one
  supplementary code point, any other surrogate is unpaired (\<open>None\<close>).
\<close>

definition is_high_surrogate :: "code_unit \<Rightarrow> bool" where
  "is_high_surrogate c = (0xD800 \<le> c \<and> c \<le> 0xDBFF)"

definition is_low_surrogate :: "code_unit \<Rightarrow> bool" where
  "is_low_surrogate c = (0xDC00 \<le> c \<and> c \<le> 0xDFFF)"

fun code_points :: "jsstring \<Rightarrow> nat option list" where
  "code_points [] = []"
| "code_points [c] =
     (if is_high_surrogate c \<or> is_low_surrogate c then [None] else [Some (unat c)])"
| "code_points (c # d # ds) =
     (if is_high_surrogate c \<and> is_low_surrogate d
      then Some (0x10000 + (unat c - 0xD800) * 0x400 + (unat d - 0xDC00)) # code_points ds
      else if is_high_surrogate c \<or> is_low_surrogate c then None # code_points (d # ds)
      else Some (unat c) # code_points (d # ds))"

definition utf8_encode :: "nat \<Rightarrow> byte list" where
  "utf8_encode n =
     (if n < 0x80 then [of_nat n]
      else if n < 0x800 then [of_nat (0xC0 + n div 64), of_nat (0x80 + n mod 64)]
      else if n < 0x10000
      then [of_nat (0xE0 + n div 4096), of_nat (0x80 + n div 64 mod 64),
            of_nat (0x80 + n mod 64)]
      else [of_nat (0xF0 + n div 262144), of_nat (0x80 + n div 4096 mod 64),
            of_nat (0x80 + n div 64 mod 64), of_nat (0x80 + n mod 64)])"

definition hex_digit :: "nat \<Rightarrow> code_unit" where
  "hex_digit d = (if d < 10 then cu CHR ''0'' + of_nat d else cu CHR ''A'' + of_nat (d - 10))"

definition percent_byte :: "byte \<Rightarrow> jsstring" where
  "percent_byte b = [cu CHR ''%'', hex_digit (unat b div 16), hex_digit (unat b mod 16)]"

definition is_alnum :: "byte \<Rightarrow> bool" where
  "is_alnum b = ((0x30 \<le> b \<and> b \<le> 0x39) \<or> (0x41 \<le> b \<and> b \<le> 0x5A) \<or> (0x61 \<le> b \<and> b \<le> 0x7A))"

definition byte_of :: "char \<Rightarrow> byte" where
  "byte_of c = of_char c"

text \<open>
  "Percent-encode after encoding" of the URL Standard with UTF-8: the string is read as
  scalar values (an unpaired surrogate becomes U+FFFD), each is encoded in UTF-8, and a
  byte is kept when it is outside the percent-encode set and written as \<open>%XX\<close> otherwise;
  with \<open>spaceAsPlus\<close> a space becomes \<open>+\<close>.
\<close>

definition encode_byte :: "(byte \<Rightarrow> bool) \<Rightarrow> bool \<Rightarrow> byte \<Rightarrow> jsstring" where
  "encode_byte in_set spaceAsPlus b =
     (if spaceAsPlus \<and> b = 0x20 then [cu CHR ''+'']
      else if in_set b then percent_byte b else [ucast b])"

definition percent_encode :: "(byte \<Rightarrow> bool) \<Rightarrow> bool \<Rightarrow> jsstring \<Rightarrow> jsstring" where
  "percent_encode in_set spaceAsPlus s =
     concat (map (\<lambda>cp. concat (map (encode_byte in_set spaceAsPlus)
                                  (utf8_encode (case cp of None \<Rightarrow> 0xFFFD | Some n \<Rightarrow> n))))
                 (code_points s))"

text \<open>
  The application/x-www-form-urlencoded percent-encode set holds every byte but the
  ASCII alphanumerics and \<open>*\<close>, \<open>-\<close>, \<open>.\<close>, \<open>_\<close>. The query percent-encode set holds the C0
  controls, every byte above \<open>~\<close>, the space and \<open>"\<close>, \<open>#\<close>, \<open><\<close>, \<open>>\<close>; for a special
  scheme also \<open>'\<close>.
\<close>

definition urlencoded_set :: "byte \<Rightarrow> bool" where
  "urlencoded_set b =
     (\<not> (is_alnum b \<or> b = byte_of CHR ''*'' \<or> b = byte_of CHR ''-'' \<or>
         b = byte_of CHR ''.'' \<or> b = byte_of CHR ''_''))"

definition query_set :: "bool \<Rightarrow> byte \<Rightarrow> bool" where
  "query_set special b =
     (b \<le> 0x1F \<or> 0x7E < b \<or> b = 0x20 \<or> b = 0x22 \<or> b = 0x23 \<or> b = 0x3C \<or> b = 0x3E \<or>
      (special \<and> b = 0x27))"

subsection \<open>The URL object\<close>

text \<open>
  A URL object is the URL record of the URL Standard together with the list of its
  \<open>searchParams\<close> object. The host is kept in its serialised form.
\<close>

datatype url_path = OpaquePath jsstring | ListPath "jsstring list"

record url =
  url_scheme :: jsstring
  url_username :: jsstring
  url_password :: jsstring
  url_host :: "jsstring option"
  url_port :: "nat option"
  url_path :: url_path
  url_query :: "jsstring option"
  url_fragment :: "jsstring option"
  url_searchParams :: "(jsstring \<times> jsstring) list"

fun decimal :: "nat \<Rightarrow> jsstring" where
  "decimal n =
     (if n < 10 then [cu CHR ''0'' + of_nat n]
      else decimal (n div 10) @ [cu CHR ''0'' + of_nat (n mod 10)])"

definition serialize_path :: "url_path \<Rightarrow> jsstring" where
  "serialize_path p =
     (case p of OpaquePath s \<Rightarrow> s
      | ListPath segments \<Rightarrow> concat (map (\<lambda>seg. str ''/'' @ seg) segments))"

definition serialize_authority :: "url \<Rightarrow> jsstring" where
  "serialize_authority u =
     (case url_host u of
        Some h \<Rightarrow>
          str ''//'' @
          (if url_username u \<noteq> [] \<or> url_password u \<noteq> []
           then url_username u @
                (if url_password u \<noteq> [] then str '':'' @ url_password u else []) @ str ''@''
           else []) @
          h @ (case url_port u of None \<Rightarrow> [] | Some p \<Rightarrow> str '':'' @ decimal p)
      | None \<Rightarrow>
          (case url_path u of
             ListPath segments \<Rightarrow>
               if 1 < length segments \<and> hd segments = [] then str ''/.'' else []
           | OpaquePath s \<Rightarrow> []))"

text \<open>\<open>url.toString()\<close>, the URL serializer.\<close>

definition URL_toString :: "url \<Rightarrow> jsstring" where
  "URL_toString u =
     url_scheme u @ str '':'' @ serialize_authority u @ serialize_path (url_path u) @
     (case url_query u of None \<Rightarrow> [] | Some q \<Rightarrow> str ''?'' @ q) @
     (case url_fragment u of None \<Rightarrow> [] | Some f \<Rightarrow> str ''#'' @ f)"

definition is_special :: "url \<Rightarrow> bool" where
  "is_special u =
     (url_scheme u \<in> {str ''ftp'', str ''file'', str ''http'', str ''https'', str ''ws'',
                       str ''wss''})"

text \<open>\<open>params.toString()\<close>, the application/x-www-form-urlencoded serializer.\<close>

fun urlencoded_serialize :: "(jsstring \<times> jsstring) list \<Rightarrow> jsstring" where
  "urlencoded_serialize [] = []"
| "urlencoded_serialize [(name, val)] =
     percent_encode urlencoded_set True name @ str ''='' @
     percent_encode urlencoded_set True val"
| "urlencoded_serialize ((name, val) # p # ps) =
     percent_encode urlencoded_set True name @ str ''='' @
     percent_encode urlencoded_set True val @ str ''&'' @ urlencoded_serialize (p # ps)"

text \<open>
  \<open>url.searchParams.append(name, value)\<close> appends the pair to the list and then updates
  the record: the query becomes the serialisation of the list (\<open>null\<close> when that is
  empty).
\<close>

definition searchParams_append :: "url \<Rightarrow> jsstring \<Rightarrow> jsstring \<Rightarrow> url" where
  "searchParams_append u name val =
     (let l = url_searchParams u @ [(name, val)];
          serialized = urlencoded_serialize l
      in u\<lparr>url_searchParams := l,
            url_query := (if serialized = [] then None else Some serialized)\<rparr>)"

text \<open>
  The \<open>search\<close> setter with the empty string: the query becomes \<open>null\<close>, the list is
  emptied, and an opaque path loses its trailing spaces when the URL has no fragment
  either.
\<close>

definition strip_trailing_spaces :: "jsstring \<Rightarrow> jsstring" where
  "strip_trailing_spaces s = rev (dropWhile (\<lambda>c. c = 0x20) (rev s))"

definition clear_search :: "url \<Rightarrow> url" where
  "clear_search u =
     (let u' = u\<lparr>url_query := None, url_searchParams := []\<rparr>
      in case url_path u' of
           OpaquePath s \<Rightarrow>
             if url_fragment u' = None
             then u'\<lparr>url_path := OpaquePath (strip_trailing_spaces s)\<rparr> else u'
         | ListPath segments \<Rightarrow> u')"

section \<open>Cache Key Normalizer (cache.ts)\<close>

text \<open>
  \<open>Array.prototype.sort\<close> is stable: with a consistent comparator its result is the one
  sorted permutation that keeps equal elements in their order, which insertion from the
  right computes. The comparator is the one of the source, on the names of two entries.
\<close>

fun insert_by :: "('a \<Rightarrow> 'a \<Rightarrow> int) \<Rightarrow> 'a \<Rightarrow> 'a list \<Rightarrow> 'a list" where
  "insert_by cmp x [] = [x]"
| "insert_by cmp x (y # ys) = (if cmp x y \<le> 0 then x # y # ys else y # insert_by cmp x ys)"

fun array_sort :: "('a \<Rightarrow> 'a \<Rightarrow> int) \<Rightarrow> 'a list \<Rightarrow> 'a list" where
  "array_sort cmp [] = []"
| "array_sort cmp (x # xs) = insert_by cmp x (array_sort cmp xs)"

definition compare_names :: "jsstring \<times> jsstring \<Rightarrow> jsstring \<times> jsstring \<Rightarrow> int" where
  "compare_names p q =
     (let a = fst p; b = fst q in if a < b then - 1 else if a > b then 1 else 0)"

text \<open>
  \<open>new URL(url)\<close> parses the serialisation of a URL object, which gives the record back:
  \<open>normalized\<close> starts as a copy of \<open>url\<close>.
\<close>

definition createCacheKey :: "url \<Rightarrow> jsstring" where
  "createCacheKey u =
     (let params = url_searchParams u;
          sortedParams = array_sort compare_names params;
          normalized = clear_search u;
          normalized = fold (\<lambda>(key, val) n. searchParams_append n key val) sortedParams
                         normalized
      in URL_toString normalized)"

section \<open>Requests, responses and headers of the platform\<close>

text \<open>
  A \<open>Headers\<close> object is a list of name and value pairs. \<open>get\<close> compares names without
  regard to ASCII case and joins the values of all matching entries with a comma and a
  space; it returns \<open>null\<close> when no entry matches. \<open>set\<close> overwrites the first entry of
  that name and removes the others, or appends a new entry.
\<close>

type_synonym headers = "(string \<times> string) list"

definition byte_lowercase :: "char \<Rightarrow> char" where
  "byte_lowercase c =
     (if 0x41 \<le> (of_char c :: nat) \<and> (of_char c :: nat) \<le> 0x5A
      then char_of ((of_char c :: nat) + 0x20) else c)"

definition same_name :: "string \<Rightarrow> string \<Rightarrow> bool" where
  "same_name a b = (map byte_lowercase a = map byte_lowercase b)"

fun join_values :: "string list \<Rightarrow> string" where
  "join_values [] = []"
| "join_values [v] = v"
| "join_values (v # w # ws) = v @ '', '' @ join_values (w # ws)"

definition headers_get :: "headers \<Rightarrow> string \<Rightarrow> string option" where
  "headers_get hs name =
     (let vs = map snd (filter (\<lambda>h. same_name (fst h) name) hs)
      in if vs = [] then None else Some (join_values vs))"

fun headers_set :: "headers \<Rightarrow> string \<Rightarrow> string \<Rightarrow> headers" where
  "headers_set [] name v = [(name, v)]"
| "headers_set (h # hs) name v =
     (if same_name (fst h) name
      then (fst h, v) # filter (\<lambda>h'. \<not> same_name (fst h') name) hs
      else h # headers_set hs name v)"

text \<open>A response; its body is \<open>null\<close> (\<open>None\<close>) or a stream of bytes.\<close>

record response =
  resp_status :: nat
  resp_statusText :: string
  resp_headers :: headers
  resp_body :: "byte list option"

definition ok :: "response \<Rightarrow> bool" where
  "ok r = (200 \<le> resp_status r \<and> resp_status r \<le> 299)"

text \<open>
  What the handlers read of a request: the path as the router gives it, the URL object
  of \<open>request.url\<close> (\<open>new URL(request.url)\<close> parses a serialisation made by the platform
  and gives that URL back), the headers, and what reading the body gives: the bytes, or
  the error the stream fails with.
\<close>

record request =
  req_path :: jsstring
  req_url :: url
  req_headers :: headers
  req_body :: "thrown + byte list"

section \<open>Cache Store Adapter (cache.ts)\<close>

text \<open>
  \<open>caches.default\<close> is modelled by the log of its \<open>put\<close> calls, newest first, each with
  its key and response; \<open>match\<close> finds the newest entry of a key.
\<close>

type_synonym cache = "(jsstring \<times> response) list"

definition cache_match :: "cache \<Rightarrow> jsstring \<Rightarrow> response option" where
  "cache_match cache cacheKey = map_of cache cacheKey"

definition cache_put :: "cache \<Rightarrow> jsstring \<Rightarrow> response \<Rightarrow> cache" where
  "cache_put cache cacheKey r = (cacheKey, r) # cache"

definition matchCache :: "cache \<Rightarrow> request \<Rightarrow> response option" where
  "matchCache cache req =
     (let cacheKey = createCacheKey (req_url req) in cache_match cache cacheKey)"

text \<open>
  \<open>String.prototype.toLowerCase\<close> on a byte string: the letters \<open>A\<close> to \<open>Z\<close> and the
  Latin-1 capitals U+00C0 to U+00DE (but not the sign U+00D7) move up by 32, every
  other character below 256 is its own lower case.
\<close>

definition lower_char :: "char \<Rightarrow> char" where
  "lower_char c =
     (if (0x41 \<le> (of_char c :: nat) \<and> (of_char c :: nat) \<le> 0x5A) \<or>
         (0xC0 \<le> (of_char c :: nat) \<and> (of_char c :: nat) \<le> 0xDE \<and>
          (of_char c :: nat) \<noteq> 0xD7)
      then char_of ((of_char c :: nat) + 0x20) else c)"

definition toLowerCase :: "string \<Rightarrow> string" where
  "toLowerCase s = map lower_char s"

text \<open>
  The regular expression \<open>/\bmax-age\s*=\s*0\b/\<close>. \<open>\w\<close> is \<open>[A-Za-z0-9_]\<close>; \<open>\s\<close> is, below
  256, tab, line feed, vertical tab, form feed, carriage return, space and the
  no-break space; \<open>\b\<close> holds between two positions of which exactly one is a word
  character (the two ends of the input count as no word character). After \<open>max-age\<close> the
  greedy \<open>\s*\<close> takes all the white space there is, and giving some back cannot help,
  since \<open>=\<close> and \<open>0\<close> are no white space.
\<close>

definition is_word_char :: "char \<Rightarrow> bool" where
  "is_word_char c =
     ((0x41 \<le> (of_char c :: nat) \<and> (of_char c :: nat) \<le> 0x5A) \<or>
      (0x61 \<le> (of_char c :: nat) \<and> (of_char c :: nat) \<le> 0x7A) \<or>
      (0x30 \<le> (of_char c :: nat) \<and> (of_char c :: nat) \<le> 0x39) \<or> c = CHR ''_'')"

definition is_space_char :: "char \<Rightarrow> bool" where
  "is_space_char c =
     ((0x09 \<le> (of_char c :: nat) \<and> (of_char c :: nat) \<le> 0x0D) \<or>
      (of_char c :: nat) = 0x20 \<or> (of_char c :: nat) = 0xA0)"

definition word_at :: "char option \<Rightarrow> bool" where
  "word_at c = (case c of None \<Rightarrow> False | Some x \<Rightarrow> is_word_char x)"

definition word_boundary :: "char option \<Rightarrow> char option \<Rightarrow> bool" where
  "word_boundary before after = (word_at before \<noteq> word_at after)"

definition first_char :: "string \<Rightarrow> char option" where
  "first_char s = (case s of [] \<Rightarrow> None | c # cs \<Rightarrow> Some c)"

text \<open>A match that starts at the current position, \<open>before\<close> being the character to its left.\<close>

definition max_age_zero_here :: "char option \<Rightarrow> string \<Rightarrow> bool" where
  "max_age_zero_here before s =
     (word_boundary before (first_char s) \<and> startsWith s ''max-age'' \<and>
      (let r1 = dropWhile is_space_char (drop (length ''max-age'') s) in
       startsWith r1 ''='' \<and>
       (let r2 = dropWhile is_space_char (drop 1 r1) in
        startsWith r2 ''0'' \<and> word_boundary (Some CHR ''0'') (first_char (drop 1 r2)))))"

text \<open>\<open>test\<close> tries every start position from the left.\<close>

fun max_age_zero_from :: "char option \<Rightarrow> string \<Rightarrow> bool" where
  "max_age_zero_from before [] = max_age_zero_here before []"
| "max_age_zero_from before (c # cs) =
     (max_age_zero_here before (c # cs) \<or> max_age_zero_from (Some c) cs)"

definition max_age_zero_test :: "string \<Rightarrow> bool" where
  "max_age_zero_test s = max_age_zero_from None s"

text \<open>
  \<open>putCache\<close>. \<open>!cacheControl\<close> holds for \<open>null\<close> and for the empty string.
  \<open>response.clone()\<close> is a copy of the response.
\<close>

definition putCache :: "cache \<Rightarrow> request \<Rightarrow> response \<Rightarrow> cache" where
  "putCache cache req resp =
     (case headers_get (resp_headers resp) ''Cache-Control'' of
        None \<Rightarrow> cache
      | Some cacheControl \<Rightarrow>
          if cacheControl = [] then cache
          else
            let normalizedCacheControl = toLowerCase cacheControl in
            if includes_str normalizedCacheControl ''no-store'' \<or>
               includes_str normalizedCacheControl ''private'' \<or>
               max_age_zero_test normalizedCacheControl
            then cache
            else
              let cacheKey = createCacheKey (req_url req)
              in cache_put cache cacheKey resp)"

subsection \<open>The cache policy of the specification\<close>

text \<open>
  Section 4.3 in its own words: a \<open>Cache-Control\<close> value is a list of directives with
  commas between them, and a \<open>max-age\<close> directive equal to zero is the name \<open>max-age\<close>,
  white space or none, \<open>=\<close>, white space or none, and a number written with zeros
  only. The value is compared without regard to case, that is after lower-casing.
\<close>

fun split_commas :: "string \<Rightarrow> string list" where
  "split_commas [] = [[]]"
| "split_commas (c # cs) =
     (if c = CHR '','' then [] # split_commas cs
      else (case split_commas cs of [] \<Rightarrow> [[c]] | p # ps \<Rightarrow> (c # p) # ps))"

definition trim :: "string \<Rightarrow> string" where
  "trim s = rev (dropWhile is_space_char (rev (dropWhile is_space_char s)))"

definition zero_max_age_directive :: "string \<Rightarrow> bool" where
  "zero_max_age_directive d =
     (\<exists>ws1 ws2 zeros.
        d = ''max-age'' @ ws1 @ ''='' @ ws2 @ zeros \<and>
        list_all is_space_char ws1 \<and> list_all is_space_char ws2 \<and>
        zeros \<noteq> [] \<and> list_all (\<lambda>c. c = CHR ''0'') zeros)"

definition has_zero_max_age_directive :: "string \<Rightarrow> bool" where
  "has_zero_max_age_directive v = list_ex zero_max_age_directive (map trim (split_commas v))"

definition claimed_cacheable :: "string \<Rightarrow> bool" where
  "claimed_cacheable v =
     (\<not> sublist ''no-store'' (toLowerCase v) \<and> \<not> sublist ''private'' (toLowerCase v) \<and>
      \<not> has_zero_max_age_directive (toLowerCase v))"

text \<open>
  The policy that the code has: in place of the directive, a place in the value where
  \<open>max-age\<close>, white space or none, \<open>=\<close>, white space or none, and the one digit \<open>0\<close>
  stand, with no word character (letter, digit or underscore) right before \<open>max-age\<close>
  and none right after the \<open>0\<close>. The name may then be the end of a longer name, as in
  \<open>x-max-age=0\<close>, and the \<open>0\<close> the start of something longer, as in \<open>max-age=0.5\<close>; a
  number of several zeros, as in \<open>max-age=00\<close>, is no such place.
\<close>

definition max_age_zero_pattern :: "string \<Rightarrow> bool" where
  "max_age_zero_pattern s =
     (\<exists>pre ws1 ws2 post.
        s = pre @ ''max-age'' @ ws1 @ ''='' @ ws2 @ ''0'' @ post \<and>
        list_all is_space_char ws1 \<and> list_all is_space_char ws2 \<and>
        (pre = [] \<or> \<not> is_word_char (last pre)) \<and>
        (post = [] \<or> \<not> is_word_char (hd post)))"

definition caching_permitted :: "string \<Rightarrow> bool" where
  "caching_permitted v =
     (\<not> sublist ''no-store'' (toLowerCase v) \<and> \<not> sublist ''private'' (toLowerCase v) \<and>
      \<not> max_age_zero_pattern (toLowerCase v))"

section \<open>Origin Gateway (origin.ts)\<close>

subsection \<open>What the platform supplies\<close>

text \<open>
  The URL parser of the platform is a parameter of the model: \<open>new_URL P input base\<close>
  is \<open>new URL(input, base)\<close>, \<open>None\<close> when the constructor throws a \<open>TypeError\<close>.
  \<open>urlencoded_parse P\<close> is the application/x-www-form-urlencoded parser, which the
  \<open>search\<close> setter uses to refill the \<open>searchParams\<close> list.
\<close>

record platform =
  new_URL :: "jsstring \<Rightarrow> jsstring option \<Rightarrow> url option"
  urlencoded_parse :: "jsstring \<Rightarrow> (jsstring \<times> jsstring) list"

definition type_error :: thrown where
  "type_error = ErrorObj ''TypeError'' ''Invalid URL''"

definition uri_error :: thrown where
  "uri_error = ErrorObj ''URIError'' ''URI malformed''"

text \<open>
  \<open>url.origin\<close>: scheme, host and port for \<open>ftp\<close>, \<open>http\<close>, \<open>https\<close>, \<open>ws\<close> and \<open>wss\<close>; for
  \<open>blob\<close> the origin of the URL in its path when that is an \<open>http\<close> or \<open>https\<close> URL; the
  opaque origin, serialised as \<open>null\<close>, for everything else.
\<close>

definition tuple_origin :: "url \<Rightarrow> jsstring" where
  "tuple_origin u =
     url_scheme u @ str ''://'' @ (case url_host u of None \<Rightarrow> [] | Some h \<Rightarrow> h) @
     (case url_port u of None \<Rightarrow> [] | Some p \<Rightarrow> str '':'' @ decimal p)"

definition URL_origin :: "platform \<Rightarrow> url \<Rightarrow> jsstring" where
  "URL_origin P u =
     (if url_scheme u = str ''blob''
      then (case new_URL P (serialize_path (url_path u)) None of
              None \<Rightarrow> str ''null''
            | Some pathURL \<Rightarrow>
                if url_scheme pathURL = str ''http'' \<or> url_scheme pathURL = str ''https''
                then tuple_origin pathURL else str ''null'')
      else if url_scheme u \<in> {str ''ftp'', str ''http'', str ''https'', str ''ws'', str ''wss''}
      then tuple_origin u
      else str ''null'')"

text \<open>
  The \<open>search\<close> setter: the empty string clears the query; otherwise one leading \<open>?\<close> is
  dropped, tabs and newlines are removed, and the rest is percent-encoded with the query
  percent-encode set of the URL.
\<close>

definition set_search :: "platform \<Rightarrow> url \<Rightarrow> jsstring \<Rightarrow> url" where
  "set_search P u v =
     (if v = [] then clear_search u
      else
        let input = (if hd v = cu CHR ''?'' then tl v else v);
            cleaned = filter (\<lambda>c. c \<noteq> 0x09 \<and> c \<noteq> 0x0A \<and> c \<noteq> 0x0D) input
        in u\<lparr>url_query := Some (percent_encode (query_set (is_special u)) False cleaned),
              url_searchParams := urlencoded_parse P input\<rparr>)"

text \<open>
  \<open>encodeURIComponent\<close> keeps the ASCII alphanumerics and \<open>- _ . ! ~ * ' ( )\<close>, writes
  every other code point as the \<open>%XX\<close> of its UTF-8 bytes, and throws a \<open>URIError\<close> on an
  unpaired surrogate.
\<close>

definition uri_unreserved :: "nat \<Rightarrow> bool" where
  "uri_unreserved n =
     ((0x30 \<le> n \<and> n \<le> 0x39) \<or> (0x41 \<le> n \<and> n \<le> 0x5A) \<or> (0x61 \<le> n \<and> n \<le> 0x7A) \<or>
      n \<in> of_char ` set ''-_.!~*'' \<or> n = 0x27 \<or> n = 0x28 \<or> n = 0x29)"

fun encode_points :: "nat option list \<Rightarrow> thrown + jsstring" where
  "encode_points [] = Inr []"
| "encode_points (None # cps) = Inl uri_error"
| "encode_points (Some n # cps) =
     (case encode_points cps of
        Inl e \<Rightarrow> Inl e
      | Inr rest \<Rightarrow>
          Inr ((if uri_unreserved n then [of_nat n]
                else concat (map percent_byte (utf8_encode n))) @ rest))"

definition encodeURIComponent :: "jsstring \<Rightarrow> thrown + jsstring" where
  "encodeURIComponent s = encode_points (code_points s)"


text \<open>\<open>.replace(/%2F/g, "/")\<close>: every occurrence of \<open>%2F\<close>, from the left, becomes \<open>/\<close>.\<close>

function replace_2F :: "jsstring \<Rightarrow> jsstring" where
  "replace_2F [] = []"
| "replace_2F (c # cs) =
     (if startsWith (c # cs) (str ''%2F'') then cu CHR ''/'' # replace_2F (drop 2 cs)
      else c # replace_2F cs)"
  by pat_completeness auto
termination
  by (relation "measure length") auto

subsection \<open>fetch\<close>

text \<open>
  A call of \<open>fetch\<close> with its URL, method and the delay of its \<open>AbortSignal.timeout\<close>.
  The network is a function from the call to what the promise settles with: a response,
  or the value it rejects with (a \<open>DOMException\<close> named \<open>TimeoutError\<close> when the signal
  fires, a \<open>TypeError\<close> for a transport failure).
\<close>

record fetch_call =
  fetch_url :: jsstring
  fetch_method :: string
  fetch_timeout :: nat

datatype settled = Fulfilled response | Rejected thrown

type_synonym network = "fetch_call \<Rightarrow> settled"

definition ORIGIN_TIMEOUT_MS :: nat where
  "ORIGIN_TIMEOUT_MS = 30000"

text \<open>
  \<open>fetchFromOrigin\<close> returns what the caller receives (the response, or what is thrown)
  together with the calls of \<open>fetch\<close> it made.
\<close>

definition fetchFromOrigin ::
  "platform \<Rightarrow> network \<Rightarrow> jsstring \<Rightarrow> jsstring \<Rightarrow> (jsstring \<times> jsstring) list
     \<Rightarrow> (thrown + response) \<times> fetch_call list" where
  "fetchFromOrigin P net originUrl key params =
     (case encodeURIComponent key of
        Inl e \<Rightarrow> (Inl e, [])
      | Inr encoded \<Rightarrow>
          let encodedKey = replace_2F encoded in
          (case new_URL P (str ''/transform/'' @ encodedKey) (Some originUrl) of
             None \<Rightarrow> (Inl type_error, [])
           | Some parsed \<Rightarrow>
               let transformUrl = set_search P parsed (urlencoded_serialize params) in
               (case new_URL P originUrl None of
                  None \<Rightarrow> (Inl type_error, [])
                | Some originParsed \<Rightarrow>
                    let expectedOrigin = URL_origin P originParsed in
                    if URL_origin P transformUrl \<noteq> expectedOrigin
                    then (Inl (HTTPException 400 ''Invalid origin URL''), [])
                    else
                      let call = \<lparr>fetch_url = URL_toString transformUrl,
                                  fetch_method = ''GET'',
                                  fetch_timeout = ORIGIN_TIMEOUT_MS\<rparr>
                      in (case net call of
                            Fulfilled resp \<Rightarrow> (Inr resp, [call])
                          | Rejected error \<Rightarrow>
                              if instanceof_Error error \<and> error_name error = ''TimeoutError''
                              then (Inl (HTTPException 504 ''Gateway Timeout''), [call])
                              else (Inl (HTTPException 502 ''Bad Gateway''), [call])))))"

subsection \<open>The SSRF invariant of the specification\<close>



section \<open>The request handlers (index.ts)\<close>

text \<open>
  \<open>c.json(value, status)\<close> answers with a JSON text and a status; the shapes the
  handlers use are kept apart. A handler can also answer with a \<open>Response\<close> of its own.
\<close>

datatype json = ErrorJson jsstring | SuccessJson jsstring

datatype reply = JsonReply json nat | ResponseReply response

fun reply_status :: "reply \<Rightarrow> nat" where
  "reply_status (JsonReply j s) = s"
| "reply_status (ResponseReply r) = resp_status r"

definition invalid_key :: reply where
  "invalid_key = JsonReply (ErrorJson (str ''Invalid key format'')) 400"

text \<open>
  \<open>new Response(body, {status, statusText, headers})\<close> throws a \<open>RangeError\<close> for a status
  outside 200 to 599 and a \<open>TypeError\<close> for a body with a null body status.
\<close>

definition new_Response :: "byte list option \<Rightarrow> nat \<Rightarrow> string \<Rightarrow> headers \<Rightarrow> thrown + response" where
  "new_Response b st stText hs =
     (if st < 200 \<or> 599 < st then Inl (ErrorObj ''RangeError'' ''Invalid status'')
      else if b \<noteq> None \<and> st \<in> {101, 103, 204, 205, 304}
      then Inl (ErrorObj ''TypeError'' ''Invalid body'')
      else Inr \<lparr>resp_status = st, resp_statusText = stText, resp_headers = hs,
                resp_body = b\<rparr>)"

subsection \<open>GET /images/*\<close>

text \<open>
  The handler gives back its reply (or what it throws), the calls of \<open>fetch\<close> it made
  and the write-backs it handed to \<open>waitUntil\<close>, which run after the reply.
\<close>

record get_result =
  get_reply :: "thrown + reply"
  get_fetches :: "fetch_call list"
  get_scheduled :: "(request \<times> response) list"

definition get_images ::
  "platform \<Rightarrow> network \<Rightarrow> jsstring \<Rightarrow> cache \<Rightarrow> request \<Rightarrow> get_result" where
  "get_images P net ORIGIN_URL cache req =
     (case extractKeyFromPath (req_path req) of
        None \<Rightarrow> \<lparr>get_reply = Inr invalid_key, get_fetches = [], get_scheduled = []\<rparr>
      | Some key \<Rightarrow>
          if \<not> validateKey key
          then \<lparr>get_reply = Inr invalid_key, get_fetches = [], get_scheduled = []\<rparr>
          else
            let params = url_searchParams (req_url req) in
            (case matchCache cache req of
               Some cached \<Rightarrow>
                 let hs = headers_set (resp_headers cached) ''X-Cache'' ''HIT'' in
                 \<lparr>get_reply =
                    map_sum id ResponseReply
                      (new_Response (resp_body cached) (resp_status cached)
                         (resp_statusText cached) hs),
                  get_fetches = [], get_scheduled = []\<rparr>
             | None \<Rightarrow>
                 (case fetchFromOrigin P net ORIGIN_URL key params of
                    (Inl e, calls) \<Rightarrow>
                      \<lparr>get_reply = Inl e, get_fetches = calls, get_scheduled = []\<rparr>
                  | (Inr originResponse, calls) \<Rightarrow>
                      let cacheableResponse = originResponse in
                      (case new_Response (resp_body originResponse)
                              (resp_status originResponse) (resp_statusText originResponse)
                              (resp_headers originResponse) of
                         Inl e \<Rightarrow>
                           \<lparr>get_reply = Inl e, get_fetches = calls, get_scheduled = []\<rparr>
                       | Inr created \<Rightarrow>
                           let resp = created\<lparr>resp_headers :=
                                        headers_set (resp_headers created) ''X-Cache'' ''MISS''\<rparr>
                           in \<lparr>get_reply = Inr (ResponseReply resp), get_fetches = calls,
                               get_scheduled =
                                 (if ok originResponse then [(req, cacheableResponse)]
                                  else [])\<rparr>))))"

text \<open>The cache store once the scheduled write-backs have run.\<close>

definition run_scheduled :: "cache \<Rightarrow> (request \<times> response) list \<Rightarrow> cache" where
  "run_scheduled cache tasks = fold (\<lambda>(rq, rs) c. putCache c rq rs) tasks cache"

subsection \<open>PUT /images/*\<close>

definition MAX_FILE_SIZE :: nat where
  "MAX_FILE_SIZE = 10 * 1024 * 1024"

text \<open>
  \<open>Number.parseInt(s, 10)\<close>: leading white space is skipped, one sign is read, then the
  longest run of decimal digits; without a digit the result is \<open>NaN\<close> (\<open>None\<close>). The
  result is kept as an exact integer: a double rounds a long run of digits, but
  rounding is monotone and the two neighbours 10485760 and 10485761 of the comparison
  are doubles, so \<open>> MAX_FILE_SIZE\<close> has the same truth value on both.
\<close>

definition is_digit :: "char \<Rightarrow> bool" where
  "is_digit c = (0x30 \<le> (of_char c :: nat) \<and> (of_char c :: nat) \<le> 0x39)"

definition digits_value :: "string \<Rightarrow> int" where
  "digits_value ds = fold (\<lambda>c acc. acc * 10 + (of_char c - 0x30)) ds 0"

definition parseInt10 :: "string \<Rightarrow> int option" where
  "parseInt10 s =
     (let S = dropWhile is_space_char s;
          sign = (if S \<noteq> [] \<and> hd S = CHR ''-'' then - 1 else 1);
          S' = (if S \<noteq> [] \<and> (hd S = CHR ''+'' \<or> hd S = CHR ''-'') then tl S else S);
          Z = takeWhile is_digit S'
      in if Z = [] then None else Some (sign * digits_value Z))"

text \<open>
  The bucket \<open>IMAGE_STORE\<close>: the objects it holds with their content type, newest first,
  and the error its \<open>put\<close> fails with when the store is unavailable.
\<close>

record r2_bucket =
  r2_objects :: "(jsstring \<times> byte list \<times> string) list"
  r2_failure :: "thrown option"

definition r2_put :: "r2_bucket \<Rightarrow> jsstring \<Rightarrow> byte list \<Rightarrow> string \<Rightarrow> thrown + r2_bucket" where
  "r2_put bucket key b contentType =
     (case r2_failure bucket of
        Some e \<Rightarrow> Inl e
      | None \<Rightarrow> Inr (bucket\<lparr>r2_objects := (key, b, contentType) # r2_objects bucket\<rparr>))"

record put_result =
  put_reply :: reply
  put_body_read :: bool
  put_bucket :: r2_bucket

definition too_large :: reply where
  "too_large =
     JsonReply
       (ErrorJson (str ''File too large. Maximum size is '' @
                   decimal (MAX_FILE_SIZE div 1024 div 1024) @ str ''MB'')) 413"

text \<open>The \<open>catch\<close> block of the handler.\<close>

definition put_catch :: "thrown \<Rightarrow> reply" where
  "put_catch error =
     (if instanceof_Error error \<and> error_message error \<noteq> [] \<and>
         includes_str (error_message error) ''Unsupported file type''
      then JsonReply (ErrorJson (str ''Unsupported media type'')) 415
      else JsonReply (ErrorJson (str ''Internal server error'')) 500)"

definition put_images :: "r2_bucket \<Rightarrow> request \<Rightarrow> put_result" where
  "put_images bucket req =
     (case extractKeyFromPath (req_path req) of
        None \<Rightarrow> \<lparr>put_reply = invalid_key, put_body_read = False, put_bucket = bucket\<rparr>
      | Some key \<Rightarrow>
          if \<not> validateKey key
          then \<lparr>put_reply = invalid_key, put_body_read = False, put_bucket = bucket\<rparr>
          else
            let contentLength = headers_get (req_headers req) ''Content-Length'' in
            if (case contentLength of
                  None \<Rightarrow> False
                | Some cl \<Rightarrow>
                    cl \<noteq> [] \<and>
                    (case parseInt10 cl of None \<Rightarrow> False
                     | Some n \<Rightarrow> n > int MAX_FILE_SIZE))
            then \<lparr>put_reply = too_large, put_body_read = False, put_bucket = bucket\<rparr>
            else
              (case req_body req of
                 Inl error \<Rightarrow>
                   \<lparr>put_reply = put_catch error, put_body_read = True, put_bucket = bucket\<rparr>
               | Inr b \<Rightarrow>
                   if length b > MAX_FILE_SIZE
                   then \<lparr>put_reply = too_large, put_body_read = True, put_bucket = bucket\<rparr>
                   else
                     (case detectMimeType b of
                        Inl error \<Rightarrow>
                          \<lparr>put_reply = put_catch error, put_body_read = True,
                            put_bucket = bucket\<rparr>
                      | Inr contentType \<Rightarrow>
                          (case r2_put bucket key b contentType of
                             Inl error \<Rightarrow>
                               \<lparr>put_reply = put_catch error, put_body_read = True,
                                 put_bucket = bucket\<rparr>
                           | Inr bucket' \<Rightarrow>
                               \<lparr>put_reply = JsonReply (SuccessJson key) 201,
                                 put_body_read = True, put_bucket = bucket'\<rparr>))))"

section \<open>Example values\<close>

text \<open>
  The URL \<open>http://cdn.example/images/x.png\<close> with a list of parameters, an upload to
  \<open>/images/x.png\<close> with given headers and body, and an empty bucket.
\<close>

definition image_url :: "(jsstring \<times> jsstring) list \<Rightarrow> url" where
  "image_url params =
     \<lparr>url_scheme = str ''http'', url_username = [], url_password = [],
      url_host = Some (str ''cdn.example''), url_port = None,
      url_path = ListPath [str ''images'', str ''x.png''],
      url_query = (if params = [] then None else Some (urlencoded_serialize params)),
      url_fragment = None, url_searchParams = params\<rparr>"

definition upload :: "headers \<Rightarrow> thrown + byte list \<Rightarrow> request" where
  "upload hs b =
     \<lparr>req_path = str ''/images/x.png'', req_url = image_url [], req_headers = hs,
      req_body = b\<rparr>"

definition empty_bucket :: r2_bucket where
  "empty_bucket = \<lparr>r2_objects = [], r2_failure = None\<rparr>"

definition plain_response :: "headers \<Rightarrow> response" where
  "plain_response hs =
     \<lparr>resp_status = 200, resp_statusText = ''OK'', resp_headers = hs, resp_body = Some []\<rparr>"

definition fetch_request :: "url \<Rightarrow> request" where
  "fetch_request u =
     \<lparr>req_path = str ''/images/x.png'', req_url = u, req_headers = [], req_body = Inr []\<rparr>"

text \<open>
  A platform for the examples: the values of \<open>new URL\<close> on the inputs that occur in
  them. \<open>http://origin.example\<close> parses, alone and as a base; \<open>mailto:ops@origin.example\<close>
  parses alone, and is no base for a path, since its own path is opaque; \<open>example.com\<close>
  has no scheme and is no URL. No example has query parameters.
\<close>

definition origin_url :: url where
  "origin_url =
     \<lparr>url_scheme = str ''http'', url_username = [], url_password = [],
      url_host = Some (str ''origin.example''), url_port = None, url_path = ListPath [[]],
      url_query = None, url_fragment = None, url_searchParams = []\<rparr>"

definition transform_url :: url where
  "transform_url = origin_url\<lparr>url_path := ListPath [str ''transform'', str ''x.png'']\<rparr>"

definition mailto_url :: url where
  "mailto_url =
     \<lparr>url_scheme = str ''mailto'', url_username = [], url_password = [],
      url_host = None, url_port = None, url_path = OpaquePath (str ''ops@origin.example''),
      url_query = None, url_fragment = None, url_searchParams = []\<rparr>"

definition example_new_URL :: "jsstring \<Rightarrow> jsstring option \<Rightarrow> url option" where
  "example_new_URL input base =
     (if input = str ''/transform/x.png'' \<and> base = Some (str ''http://origin.example'')
      then Some transform_url
      else if input = str ''http://origin.example'' \<and> base = None then Some origin_url
      else if input = str ''mailto:ops@origin.example'' \<and> base = None then Some mailto_url
      else None)"

definition example_urlencoded_parse :: "jsstring \<Rightarrow> (jsstring \<times> jsstring) list" where
  "example_urlencoded_parse s = []"

definition example_platform :: platform where
  "example_platform =
     \<lparr>new_URL = example_new_URL, urlencoded_parse = example_urlencoded_parse\<rparr>"




definition origin_answers :: "response \<Rightarrow> network" where
  "origin_answers r call = Fulfilled r"

definition origin_fails :: "thrown \<Rightarrow> network" where
  "origin_fails e call = Rejected e"

definition transform_call :: fetch_call where
  "transform_call =
     \<lparr>fetch_url = str ''http://origin.example/transform/x.png'', fetch_method = ''GET'',
      fetch_timeout = 30000\<rparr>"

definition cacheable_404 :: response where
  "cacheable_404 =
     \<lparr>resp_status = 404, resp_statusText = ''Not Found'',
      resp_headers = [(''Cache-Control'', ''Public, Max-Age=60'')], resp_body = Some []\<rparr>"

section \<open>Properties of the Key Validator\<close>

lemma startsWith_prefix: "startsWith s p = prefix p s"
  by (induction s p rule: startsWith.induct) auto

lemma includes_str_sublist: "includes_str s p = sublist p s"
proof (induction s)
  case Nil
  then show ?case by auto
next
  case (Cons c cs)
  then show ?case
    by (cases p) (auto simp: startsWith_prefix sublist_Cons_right)
qed

lemma class_plus_iff: "class_plus cls s = (s \<noteq> [] \<and> list_all cls s)"
  by (induction cls s rule: class_plus.induct) auto

lemma safeClass_allowed: "safeClass c = (c \<in> allowed_chars)"
  by (auto simp: safeClass_def allowed_chars_def)

lemma validateKey_iff:
  "validateKey key =
     (key \<noteq> [] \<and> \<not> sublist (str ''..'') key \<and> \<not> prefix (str ''/'') key \<and>
      \<not> sublist (str ''//'') key \<and> set key \<subseteq> allowed_chars)"
  by (auto simp: validateKey_def safePattern_test_def class_plus_iff list_all_iff
      safeClass_allowed startsWith_prefix includes_str_sublist)

text \<open>
  Claim C4. A key that is empty, contains \<open>..\<close>, starts with \<open>/\<close>, contains \<open>//\<close> or
  contains a code unit outside \<open>[a-zA-Z0-9\-_/.]\<close> is rejected by \<open>validateKey\<close>; a
  non-empty key made only of code units of that class, with none of the three forbidden
  patterns, is accepted.
\<close>

theorem validateKey_rejects_and_accepts:
  "(key = [] \<or> sublist (str ''..'') key \<or> prefix (str ''/'') key \<or>
    sublist (str ''//'') key \<or> (\<exists>c \<in> set key. c \<notin> allowed_chars)
      \<longrightarrow> \<not> validateKey key) \<and>
   (key \<noteq> [] \<and> (\<forall>c \<in> set key. c \<in> allowed_chars) \<and> \<not> sublist (str ''..'') key \<and>
    \<not> prefix (str ''/'') key \<and> \<not> sublist (str ''//'') key
      \<longrightarrow> validateKey key)"
  unfolding validateKey_iff by blast

theorem validateKey_rejects_and_accepts_witness:
  "str ''a/b.png'' \<noteq> [] \<and> set (str ''a/b.png'') \<subseteq> allowed_chars \<and>
   \<not> sublist (str ''..'') (str ''a/b.png'') \<and> \<not> prefix (str ''/'') (str ''a/b.png'') \<and>
   \<not> sublist (str ''//'') (str ''a/b.png'') \<and> validateKey (str ''a/b.png'') \<and>
   sublist (str ''..'') (str ''../etc/passwd'') \<and> \<not> validateKey (str ''../etc/passwd'')"
  using validateKey_rejects_and_accepts [of "str ''a/b.png''"]
    validateKey_rejects_and_accepts [of "str ''../etc/passwd''"]
  by (simp add: includes_str_sublist [symmetric] startsWith_prefix [symmetric]
      str_def cu_def allowed_chars_def)

section \<open>Properties of the Content Sniffer\<close>

lemma run_at_Nil: "run_at off [] bs"
  by (simp add: run_at_def)

lemma run_at_Cons: "run_at off (p # ps) bs = (at bs off = Some p \<and> run_at (Suc off) ps bs)"
proof (cases "off < length bs")
  case True
  then have "drop off bs = bs ! off # drop (Suc off) bs"
    by (simp add: Cons_nth_drop_Suc)
  with True show ?thesis
    by (auto simp: run_at_def at_def)
next
  case False
  then show ?thesis
    by (simp add: run_at_def at_def)
qed

lemma Suc_offsets:
  "Suc 8 = 9" "Suc 9 = 10" "Suc 10 = 11" "Suc 4 = 5" "Suc 5 = 6" "Suc 6 = 7"
  by simp_all

lemma is_jpeg_at:
  "is_jpeg bs = (at bs 0 = Some 0xff \<and> at bs 1 = Some 0xd8 \<and> at bs 2 = Some 0xff)"
  by (simp add: is_jpeg_def run_at_Cons run_at_Nil numeral_2_eq_2)

lemma is_png_at:
  "is_png bs = (at bs 0 = Some 0x89 \<and> at bs 1 = Some 0x50 \<and>
                at bs 2 = Some 0x4e \<and> at bs 3 = Some 0x47)"
  by (simp add: is_png_def run_at_Cons run_at_Nil numeral_2_eq_2 numeral_3_eq_3)

lemma is_gif_at:
  "is_gif bs = (at bs 0 = Some 0x47 \<and> at bs 1 = Some 0x49 \<and> at bs 2 = Some 0x46)"
  by (simp add: is_gif_def run_at_Cons run_at_Nil numeral_2_eq_2)

lemma is_webp_at:
  "is_webp bs = (at bs 8 = Some 0x57 \<and> at bs 9 = Some 0x45 \<and>
                 at bs 10 = Some 0x42 \<and> at bs 11 = Some 0x50)"
  by (simp add: is_webp_def run_at_Cons run_at_Nil Suc_offsets)

lemma is_avif_at:
  "is_avif bs =
     (at bs 4 = Some 0x66 \<and> at bs 5 = Some 0x74 \<and> at bs 6 = Some 0x79 \<and>
      at bs 7 = Some 0x70 \<and>
      ((at bs 8 = Some 0x61 \<and> at bs 9 = Some 0x76 \<and>
        at bs 10 = Some 0x69 \<and> at bs 11 = Some 0x66) \<or>
       (at bs 8 = Some 0x61 \<and> at bs 9 = Some 0x76 \<and>
        at bs 10 = Some 0x69 \<and> at bs 11 = Some 0x73)))"
  by (simp add: is_avif_def run_at_Cons run_at_Nil Suc_offsets)

lemmas signature_at = is_jpeg_at is_png_at is_gif_at is_webp_at is_avif_at

text \<open>The chain of \<open>if\<close>s of the source, with each condition read as a row of the table.\<close>

lemma detectMimeType_chain:
  "detectMimeType buffer =
    (let bs = take 16 buffer in
     if is_jpeg bs then Inr ''image/jpeg'' else if is_png bs then Inr ''image/png''
     else if is_gif bs then Inr ''image/gif'' else if is_webp bs then Inr ''image/webp''
     else if is_avif bs then Inr ''image/avif'' else Inl unsupported)"
  unfolding detectMimeType_def slice16_def Let_def signature_at ..

lemma detectMimeType_table:
  "detectMimeType buffer =
     (case table_lookup buffer of None \<Rightarrow> Inl unsupported | Some m \<Rightarrow> Inr m)"
  by (simp add: detectMimeType_chain table_lookup_def signature_table_def Let_def)

lemma detectMimeType_unsupported_iff:
  "(detectMimeType buffer = Inl unsupported) = no_signature buffer"
  by (simp add: detectMimeType_chain no_signature_def Let_def)

text \<open>
  Claim C6. \<open>detectMimeType\<close> throws the error "Unsupported file type" if and only if
  the first 16 bytes match none of the five signatures, and otherwise it returns the
  MIME type of the first row of the table that matches.
\<close>

theorem detectMimeType_follows_table:
  "(detectMimeType buffer = Inl (ErrorObj ''Error'' ''Unsupported file type'')
      \<longleftrightarrow> no_signature buffer) \<and>
   detectMimeType buffer =
     (case table_lookup buffer of
        None \<Rightarrow> Inl (ErrorObj ''Error'' ''Unsupported file type'')
      | Some m \<Rightarrow> Inr m)"
  using detectMimeType_unsupported_iff [of buffer] detectMimeType_table [of buffer]
  unfolding unsupported_def by simp

theorem detectMimeType_follows_table_witness:
  "detectMimeType [0x89, 0x50, 0x4E, 0x47, 0x0D, 0x0A, 0x1A, 0x0A] = Inr ''image/png'' \<and>
   detectMimeType [0x00, 0x01, 0x02, 0x03] = Inl (ErrorObj ''Error'' ''Unsupported file type'')"
  using detectMimeType_follows_table [of "[0x89, 0x50, 0x4E, 0x47, 0x0D, 0x0A, 0x1A, 0x0A]"]
    detectMimeType_follows_table [of "[0x00, 0x01, 0x02, 0x03]"]
  by (simp add: table_lookup_def signature_table_def no_signature_def is_jpeg_def
      is_png_def is_gif_def is_webp_def is_avif_def run_at_def)

lemma at_None_beyond: "length bs \<le> i \<Longrightarrow> at bs i = None"
  by (simp add: at_def)

lemma at_take16_Some: "at (take 16 bs) i = Some v \<Longrightarrow> i < length bs"
  by (simp add: at_def split: if_splits)

lemma is_jpeg_length: "is_jpeg (take 16 b) \<Longrightarrow> 3 \<le> length b"
  by (auto simp: is_jpeg_at dest!: at_take16_Some)

lemma is_png_length: "is_png (take 16 b) \<Longrightarrow> 4 \<le> length b"
  by (auto simp: is_png_at dest!: at_take16_Some)

lemma is_gif_length: "is_gif (take 16 b) \<Longrightarrow> 3 \<le> length b"
  by (auto simp: is_gif_at dest!: at_take16_Some)

lemma is_webp_length: "is_webp (take 16 b) \<Longrightarrow> 12 \<le> length b"
  by (auto simp: is_webp_at dest!: at_take16_Some)

lemma is_avif_length: "is_avif (take 16 b) \<Longrightarrow> 12 \<le> length b"
  by (auto simp: is_avif_at dest!: at_take16_Some)

lemma detectMimeType_short: "length buffer < 3 \<Longrightarrow> detectMimeType buffer = Inl unsupported"
  unfolding detectMimeType_def slice16_def Let_def
  by (simp add: at_None_beyond)

lemma detectMimeType_needs_bytes:
  "detectMimeType buffer = Inr m \<Longrightarrow>
     (m = ''image/jpeg'' \<or> m = ''image/gif'' \<longrightarrow> 3 \<le> length buffer) \<and>
     (m = ''image/png'' \<longrightarrow> 4 \<le> length buffer) \<and>
     (m = ''image/webp'' \<or> m = ''image/avif'' \<longrightarrow> 12 \<le> length buffer)"
  by (auto simp: detectMimeType_chain Let_def split: if_splits
      dest: is_jpeg_length is_png_length is_gif_length is_webp_length is_avif_length)

text \<open>
  Claim C7 as stated fails: a buffer of three bytes that are the JPEG signature is
  shorter than 16 bytes and is classified as \<open>image/jpeg\<close>.
\<close>

theorem short_buffer_counterexample:
  "length [0xFF, 0xD8, 0xFF :: byte] < 16 \<and>
   detectMimeType [0xFF, 0xD8, 0xFF] = Inr ''image/jpeg'' \<and>
   detectMimeType [0xFF, 0xD8, 0xFF] \<noteq> Inl (ErrorObj ''Error'' ''Unsupported file type'')"
  by (simp add: detectMimeType_def slice16_def at_def)

text \<open>
  Claim C7, amended. A buffer shorter than 16 bytes is compared on the bytes it has, and
  a missing byte matches nothing: every buffer shorter than 3 bytes fails with the
  unsupported-type condition whatever its bytes are, and a buffer is classified only when
  it holds every byte of the signature (3 bytes for JPEG and GIF, 4 for PNG, 12 for WebP
  and AVIF).
\<close>

theorem short_buffer_needs_whole_signature:
  "(length buffer < 3 \<longrightarrow>
      detectMimeType buffer = Inl (ErrorObj ''Error'' ''Unsupported file type'')) \<and>
   (detectMimeType buffer = Inr ''image/jpeg'' \<longrightarrow> 3 \<le> length buffer) \<and>
   (detectMimeType buffer = Inr ''image/png'' \<longrightarrow> 4 \<le> length buffer) \<and>
   (detectMimeType buffer = Inr ''image/gif'' \<longrightarrow> 3 \<le> length buffer) \<and>
   (detectMimeType buffer = Inr ''image/webp'' \<longrightarrow> 12 \<le> length buffer) \<and>
   (detectMimeType buffer = Inr ''image/avif'' \<longrightarrow> 12 \<le> length buffer)"
  using detectMimeType_short [of buffer] detectMimeType_needs_bytes [of buffer]
  unfolding unsupported_def by simp

theorem short_buffer_needs_whole_signature_witness:
  "length [0xFF, 0xD8 :: byte] < 3 \<and>
   detectMimeType [0xFF, 0xD8] = Inl (ErrorObj ''Error'' ''Unsupported file type'') \<and>
   detectMimeType [0x47, 0x49, 0x46, 0x38] = Inr ''image/gif'' \<and>
   3 \<le> length [0x47, 0x49, 0x46, 0x38 :: byte]"
  using short_buffer_needs_whole_signature [of "[0xFF, 0xD8]"]
    short_buffer_needs_whole_signature [of "[0x47, 0x49, 0x46, 0x38]"]
  by (simp add: detectMimeType_def slice16_def at_def)

section \<open>Properties of the Upload Pipeline\<close>

lemma parseInt10_empty: "parseInt10 [] = None"
  by (simp add: parseInt10_def)

lemma reply_status_put_catch:
  "reply_status (put_catch e) = 415 \<or> reply_status (put_catch e) = 500"
  by (simp add: put_catch_def)

lemma reply_status_too_large: "reply_status too_large = 413"
  by (simp add: too_large_def)

lemma extractKeyFromPath_example:
  "extractKeyFromPath (str ''/images/x.png'') = Some (str ''x.png'')"
  by (simp add: extractKeyFromPath_def str_def cu_def)

lemma validateKey_example: "validateKey (str ''x.png'')"
  by (simp add: validateKey_def safePattern_test_def safeClass_def str_def cu_def)

lemma headers_get_single: "headers_get [(name, v)] name = Some v"
  by (simp add: headers_get_def same_name_def)

lemma headers_get_Nil: "headers_get [] name = None"
  by (simp add: headers_get_def)

lemma parseInt10_20000000: "parseInt10 ''20000000'' = Some 20000000"
  by (simp add: parseInt10_def is_space_char_def is_digit_def digits_value_def)

lemma parseInt10_NaN: "parseInt10 ''ten'' = None"
  by (simp add: parseInt10_def is_space_char_def is_digit_def)

text \<open>
  Claim C8. A \<open>PUT /images/<key>\<close> with a valid key whose \<open>Content-Length\<close> header
  parses to a number above 10 MiB is answered with 413, the body is not read and the
  bucket is not written.
\<close>

theorem put_declared_size_rejected:
  assumes "extractKeyFromPath (req_path req) = Some key" and "validateKey key"
    and "headers_get (req_headers req) ''Content-Length'' = Some cl"
    and "parseInt10 cl = Some n" and "10 * 1024 * 1024 < n"
  shows "reply_status (put_reply (put_images bucket req)) = 413 \<and>
         \<not> put_body_read (put_images bucket req) \<and>
         put_bucket (put_images bucket req) = bucket"
proof -
  from assms(4) have "cl \<noteq> []"
    using parseInt10_empty by auto
  with assms show ?thesis
    by (simp add: put_images_def MAX_FILE_SIZE_def reply_status_too_large)
qed

theorem put_declared_size_rejected_witness:
  "extractKeyFromPath (req_path (upload [(''Content-Length'', ''20000000'')] (Inr []))) =
     Some (str ''x.png'') \<and>
   validateKey (str ''x.png'') \<and>
   headers_get (req_headers (upload [(''Content-Length'', ''20000000'')] (Inr [])))
     ''Content-Length'' = Some ''20000000'' \<and>
   parseInt10 ''20000000'' = Some 20000000 \<and> 10 * 1024 * 1024 < (20000000 :: int) \<and>
   reply_status
     (put_reply (put_images empty_bucket (upload [(''Content-Length'', ''20000000'')] (Inr []))))
     = 413 \<and>
   \<not> put_body_read (put_images empty_bucket (upload [(''Content-Length'', ''20000000'')] (Inr [])))"
  using put_declared_size_rejected
    [of "upload [(''Content-Length'', ''20000000'')] (Inr [])" "str ''x.png''" "''20000000''"
        20000000 empty_bucket]
  by (simp add: upload_def extractKeyFromPath_example validateKey_example headers_get_single
      parseInt10_20000000)

text \<open>
  Claim C10. With a valid key, when the \<open>Content-Length\<close> header is absent or does not
  parse to a number, the declared-size check does not reject: the body is read. The
  ceiling is then enforced on the body that was read: the answer is 413 exactly when
  that body is longer than 10 MiB, such a body leaves the bucket as it was, and what the
  bucket gains, if anything, is that body under the key, of at most 10 MiB.
\<close>

theorem put_undeclared_size:
  assumes "extractKeyFromPath (req_path req) = Some key" and "validateKey key"
    and "headers_get (req_headers req) ''Content-Length'' = None \<or>
         (\<exists>cl. headers_get (req_headers req) ''Content-Length'' = Some cl \<and>
               parseInt10 cl = None)"
  shows "put_body_read (put_images bucket req) \<and>
         (\<forall>b. req_body req = Inr b \<longrightarrow>
            (reply_status (put_reply (put_images bucket req)) = 413
               \<longleftrightarrow> 10 * 1024 * 1024 < length b) \<and>
            (10 * 1024 * 1024 < length b \<longrightarrow> put_bucket (put_images bucket req) = bucket)) \<and>
         (put_bucket (put_images bucket req) \<noteq> bucket \<longrightarrow>
            (\<exists>b contentType. req_body req = Inr b \<and> length b \<le> 10 * 1024 * 1024 \<and>
               put_bucket (put_images bucket req) =
                 bucket\<lparr>r2_objects := (key, b, contentType) # r2_objects bucket\<rparr>))"
proof -
  have catch: "reply_status (put_catch e) \<noteq> 413" for e
    using reply_status_put_catch [of e] by auto
  have skipped:
    "(case headers_get (req_headers req) ''Content-Length'' of
        None \<Rightarrow> False
      | Some cl \<Rightarrow>
          cl \<noteq> [] \<and>
          (case parseInt10 cl of None \<Rightarrow> False | Some n \<Rightarrow> n > int MAX_FILE_SIZE)) = False"
    using assms(3) by auto
  show ?thesis
  proof (cases "req_body req")
    case (Inl error)
    with assms(1,2) skipped show ?thesis
      by (simp add: put_images_def)
  next
    case (Inr b)
    show ?thesis
    proof (cases "length b > MAX_FILE_SIZE")
      case True
      with assms(1,2) skipped Inr show ?thesis
        by (simp add: put_images_def reply_status_too_large) (simp add: MAX_FILE_SIZE_def)
    next
      case False
      then have small: "length b \<le> 10 * 1024 * 1024" "\<not> 10 * 1024 * 1024 < length b"
        by (simp_all add: MAX_FILE_SIZE_def)
      show ?thesis
      proof (cases "detectMimeType b")
        case (Inl error)
        with assms(1,2) skipped Inr False small show ?thesis
          by (simp add: put_images_def catch)
      next
        case sniffed: (Inr contentType)
        show ?thesis
        proof (cases "r2_put bucket key b contentType")
          case (Inl error)
          with assms(1,2) skipped Inr False small sniffed show ?thesis
            by (simp add: put_images_def catch)
        next
          case stored: (Inr bucket')
          then have "bucket' = bucket\<lparr>r2_objects := (key, b, contentType) # r2_objects bucket\<rparr>"
            by (simp add: r2_put_def split: option.splits)
          with assms(1,2) skipped Inr False small sniffed stored show ?thesis
            by (auto simp: put_images_def)
        qed
      qed
    qed
  qed
qed

lemma detectMimeType_jpeg_example: "detectMimeType [0xFF, 0xD8, 0xFF] = Inr ''image/jpeg''"
  by (simp add: detectMimeType_def slice16_def at_def)

lemma put_images_jpeg_example:
  "put_images empty_bucket (upload [(''Content-Length'', ''ten'')] (Inr [0xFF, 0xD8, 0xFF])) =
     \<lparr>put_reply = JsonReply (SuccessJson (str ''x.png'')) 201, put_body_read = True,
      put_bucket = empty_bucket\<lparr>r2_objects := [(str ''x.png'', [0xFF, 0xD8, 0xFF], ''image/jpeg'')]\<rparr>\<rparr>"
  by (simp add: put_images_def upload_def extractKeyFromPath_example validateKey_example
      headers_get_single parseInt10_NaN MAX_FILE_SIZE_def detectMimeType_jpeg_example
      r2_put_def empty_bucket_def)

theorem put_undeclared_size_witness:
  "extractKeyFromPath (req_path (upload [] (Inr (replicate 10485761 0)))) = Some (str ''x.png'') \<and>
   validateKey (str ''x.png'') \<and>
   headers_get (req_headers (upload [] (Inr (replicate 10485761 0)))) ''Content-Length'' = None \<and>
   put_body_read (put_images empty_bucket (upload [] (Inr (replicate 10485761 0)))) \<and>
   10 * 1024 * 1024 < length (replicate 10485761 (0 :: byte)) \<and>
   reply_status (put_reply (put_images empty_bucket (upload [] (Inr (replicate 10485761 0))))) = 413 \<and>
   put_bucket (put_images empty_bucket (upload [] (Inr (replicate 10485761 0)))) = empty_bucket \<and>
   headers_get (req_headers (upload [(''Content-Length'', ''ten'')] (Inr [0xFF, 0xD8, 0xFF])))
     ''Content-Length'' = Some ''ten'' \<and>
   parseInt10 ''ten'' = None \<and>
   put_body_read (put_images empty_bucket (upload [(''Content-Length'', ''ten'')] (Inr [0xFF, 0xD8, 0xFF]))) \<and>
   reply_status
     (put_reply (put_images empty_bucket (upload [(''Content-Length'', ''ten'')] (Inr [0xFF, 0xD8, 0xFF]))))
     = 201 \<and>
   length [0xFF, 0xD8, 0xFF :: byte] \<le> 10 * 1024 * 1024 \<and>
   put_bucket (put_images empty_bucket (upload [(''Content-Length'', ''ten'')] (Inr [0xFF, 0xD8, 0xFF])))
     = empty_bucket\<lparr>r2_objects := [(str ''x.png'', [0xFF, 0xD8, 0xFF], ''image/jpeg'')]\<rparr>"
  using put_undeclared_size
      [of "upload [] (Inr (replicate 10485761 0))" "str ''x.png''" empty_bucket]
    put_undeclared_size
      [of "upload [(''Content-Length'', ''ten'')] (Inr [0xFF, 0xD8, 0xFF])" "str ''x.png''"
          empty_bucket]
  by (simp add: put_images_jpeg_example)
    (simp add: upload_def extractKeyFromPath_example validateKey_example headers_get_single
      headers_get_Nil parseInt10_NaN)

section \<open>Properties of the Cache Store Adapter\<close>

subsection \<open>The regular expression finds exactly the directive\<close>

lemma not_space_eq: "\<not> is_space_char CHR ''=''"
  by (simp add: is_space_char_def)

lemma not_space_zero: "\<not> is_space_char CHR ''0''"
  by (simp add: is_space_char_def)

lemma word_m: "is_word_char CHR ''m''"
  by (simp add: is_word_char_def)

lemma word_zero: "is_word_char CHR ''0''"
  by (simp add: is_word_char_def)

lemma word_at_first: "word_at (first_char s) = (s \<noteq> [] \<and> is_word_char (hd s))"
  by (cases s) (simp_all add: word_at_def first_char_def)

lemma word_at_Some: "word_at (Some c) = is_word_char c"
  by (simp add: word_at_def)

lemma dropWhile_spaces:
  "list_all is_space_char ws \<Longrightarrow> \<not> is_space_char c \<Longrightarrow>
   dropWhile is_space_char (ws @ c # rest) = c # rest"
  by (induction ws) auto

lemma here_intro:
  assumes "list_all is_space_char ws1" "list_all is_space_char ws2"
    and "\<not> word_at before" and "post = [] \<or> \<not> is_word_char (hd post)"
  shows "max_age_zero_here before (''max-age'' @ ws1 @ ''='' @ ws2 @ ''0'' @ post)"
proof -
  have d1: "dropWhile is_space_char (ws1 @ CHR ''='' # ws2 @ CHR ''0'' # post) = CHR ''='' # ws2 @ CHR ''0'' # post"
    using assms(1) not_space_eq by (rule dropWhile_spaces)
  have d2: "dropWhile is_space_char (ws2 @ CHR ''0'' # post) = CHR ''0'' # post"
    using assms(2) not_space_zero by (rule dropWhile_spaces)
  show ?thesis
    using assms(3,4)
    by (simp add: max_age_zero_here_def d1 d2 word_boundary_def word_at_first
        word_at_Some word_m word_zero)
qed

lemma here_elim:
  assumes "max_age_zero_here before s"
  shows "\<exists>ws1 ws2 post. s = ''max-age'' @ ws1 @ ''='' @ ws2 @ ''0'' @ post \<and>
           list_all is_space_char ws1 \<and> list_all is_space_char ws2 \<and>
           \<not> word_at before \<and> (post = [] \<or> \<not> is_word_char (hd post))"
proof -
  define t where "t = drop (length ''max-age'') s"
  define r1 where "r1 = dropWhile is_space_char t"
  define r2 where "r2 = dropWhile is_space_char (drop 1 r1)"
  from assms have b: "word_boundary before (first_char s)" and p: "startsWith s ''max-age''"
    and e: "startsWith r1 ''=''" and z: "startsWith r2 ''0''"
    and b2: "word_boundary (Some CHR ''0'') (first_char (drop 1 r2))"
    by (simp_all add: max_age_zero_here_def Let_def t_def r1_def r2_def)
  from p have s: "s = ''max-age'' @ t"
    by (auto simp: startsWith_prefix prefix_def t_def)
  have t: "t = takeWhile is_space_char t @ r1"
    by (simp add: r1_def)
  from e obtain t2 where r1: "r1 = ''='' @ t2"
    by (auto simp: startsWith_prefix prefix_def)
  have t2: "t2 = takeWhile is_space_char t2 @ r2"
    using r1 by (simp add: r2_def)
  from z obtain post where r2: "r2 = ''0'' @ post"
    by (auto simp: startsWith_prefix prefix_def)
  have "s = ''max-age'' @ takeWhile is_space_char t @ ''='' @ takeWhile is_space_char t2 @ ''0'' @ post"
    using s t r1 t2 r2 by (metis append_assoc)
  moreover have "list_all is_space_char (takeWhile is_space_char t)"
    "list_all is_space_char (takeWhile is_space_char t2)"
    by (auto simp: list_all_iff dest: set_takeWhileD)
  moreover from b s have "\<not> word_at before"
    by (simp add: word_boundary_def word_at_first word_m)
  moreover from b2 r2 have "post = [] \<or> \<not> is_word_char (hd post)"
    by (auto simp: word_boundary_def word_at_first word_at_Some word_zero)
  ultimately show ?thesis by blast
qed

lemma from_iff:
  "max_age_zero_from before s =
     (\<exists>pre rest. s = pre @ rest \<and>
        max_age_zero_here (if pre = [] then before else Some (last pre)) rest)"
proof (induction s arbitrary: before)
  case Nil
  then show ?case by simp
next
  case (Cons c cs)
  show ?case
  proof
    assume "max_age_zero_from before (c # cs)"
    then consider "max_age_zero_here before (c # cs)" | "max_age_zero_from (Some c) cs"
      by auto
    then show "\<exists>pre rest. c # cs = pre @ rest \<and>
        max_age_zero_here (if pre = [] then before else Some (last pre)) rest"
    proof cases
      case 1
      then have "c # cs = [] @ (c # cs) \<and> max_age_zero_here (if [] = ([]::string) then before else Some (last [])) (c # cs)"
        by simp
      then show ?thesis by blast
    next
      case 2
      then obtain pre rest where cs: "cs = pre @ rest"
        and h: "max_age_zero_here (if pre = [] then Some c else Some (last pre)) rest"
        using Cons.IH by blast
      have "c # cs = (c # pre) @ rest \<and>
         max_age_zero_here (if c # pre = [] then before else Some (last (c # pre))) rest"
        using cs h by (cases "pre = []") simp_all
      then show ?thesis by blast
    qed
  next
    assume "\<exists>pre rest. c # cs = pre @ rest \<and>
        max_age_zero_here (if pre = [] then before else Some (last pre)) rest"
    then obtain pre rest where eq: "c # cs = pre @ rest"
      and h: "max_age_zero_here (if pre = [] then before else Some (last pre)) rest"
      by blast
    show "max_age_zero_from before (c # cs)"
    proof (cases pre)
      case Nil
      with eq have "rest = c # cs" by simp
      with h Nil show ?thesis by simp
    next
      case (Cons d pre')
      with eq have c: "d = c" and cs: "cs = pre' @ rest" by simp_all
      from h Cons c have "max_age_zero_here (if pre' = [] then Some c else Some (last pre')) rest"
        by (cases "pre' = []") simp_all
      with cs have "max_age_zero_from (Some c) cs"
        using Cons.IH by blast
      then show ?thesis by simp
    qed
  qed
qed

lemma max_age_zero_test_iff: "max_age_zero_test s = max_age_zero_pattern s"
proof
  assume "max_age_zero_test s"
  then obtain pre rest where s: "s = pre @ rest"
    and h: "max_age_zero_here (if pre = [] then None else Some (last pre)) rest"
    by (auto simp: max_age_zero_test_def from_iff)
  from here_elim [OF h] obtain ws1 ws2 post where
    r: "rest = ''max-age'' @ ws1 @ ''='' @ ws2 @ ''0'' @ post"
    and w: "list_all is_space_char ws1" "list_all is_space_char ws2"
    and b: "\<not> word_at (if pre = [] then None else Some (last pre))"
    and a: "post = [] \<or> \<not> is_word_char (hd post)"
    by blast
  from b have "pre = [] \<or> \<not> is_word_char (last pre)"
    by (cases "pre = []") (simp_all add: word_at_def)
  with s r w a show "max_age_zero_pattern s"
    unfolding max_age_zero_pattern_def by blast
next
  assume "max_age_zero_pattern s"
  then obtain pre ws1 ws2 post where
    s: "s = pre @ ''max-age'' @ ws1 @ ''='' @ ws2 @ ''0'' @ post"
    and w: "list_all is_space_char ws1" "list_all is_space_char ws2"
    and b: "pre = [] \<or> \<not> is_word_char (last pre)"
    and a: "post = [] \<or> \<not> is_word_char (hd post)"
    unfolding max_age_zero_pattern_def by blast
  from b have "\<not> word_at (if pre = [] then None else Some (last pre))"
    by (cases "pre = []") (simp_all add: word_at_def)
  from here_intro [OF w this a] s show "max_age_zero_test s"
    unfolding max_age_zero_test_def from_iff by blast
qed


lemma putCache_cases:
  "putCache cache req resp =
     (if \<exists>v. headers_get (resp_headers resp) ''Cache-Control'' = Some v \<and> v \<noteq> [] \<and>
             caching_permitted v
      then (createCacheKey (req_url req), resp) # cache else cache)"
  by (auto simp: putCache_def caching_permitted_def includes_str_sublist max_age_zero_test_iff
      cache_put_def Let_def split: option.splits)

lemma max_age_zero_pattern_Nil: "\<not> max_age_zero_pattern []"
  by (simp add: max_age_zero_pattern_def)

lemma caching_permitted_Nil: "caching_permitted []"
  by (simp add: caching_permitted_def toLowerCase_def max_age_zero_pattern_Nil)

lemma toLowerCase_example: "toLowerCase ''Public, Max-Age=60'' = ''public, max-age=60''"
  by (simp add: toLowerCase_def lower_char_def char_of_def bit_Suc_0_iff)

lemma toLowerCase_lower: "toLowerCase ''max-age = 0'' = ''max-age = 0''"
  by (simp add: toLowerCase_def lower_char_def char_of_def bit_Suc_0_iff)

lemma max_age_60_no_match: "\<not> max_age_zero_test ''public, max-age=60''"
  by (simp add: max_age_zero_test_def max_age_zero_here_def word_boundary_def word_at_def
      first_char_def is_word_char_def is_space_char_def)

lemma max_age_0_match: "max_age_zero_test ''max-age = 0''"
  by (simp add: max_age_zero_test_def max_age_zero_here_def word_boundary_def word_at_def
      first_char_def is_word_char_def is_space_char_def)

lemma max_age_00_no_match: "\<not> max_age_zero_test ''max-age=00''"
  by (simp add: max_age_zero_test_def max_age_zero_here_def word_boundary_def word_at_def
      first_char_def is_word_char_def is_space_char_def)

lemma caching_permitted_example: "caching_permitted ''Public, Max-Age=60''"
  by (simp add: caching_permitted_def toLowerCase_example max_age_zero_test_iff [symmetric]
      max_age_60_no_match includes_str_sublist [symmetric])

lemma caching_forbidden_example: "\<not> caching_permitted ''max-age = 0''"
  by (simp add: caching_permitted_def toLowerCase_lower max_age_zero_test_iff [symmetric]
      max_age_0_match)

lemma zero_max_age_directive_00: "zero_max_age_directive ''max-age=00''"
  unfolding zero_max_age_directive_def
  by (rule exI [of _ "[]"], rule exI [of _ "[]"], rule exI [of _ "''00''"]) simp

lemma not_zero_max_age_directive_x: "\<not> zero_max_age_directive ''x-max-age=0''"
  by (simp add: zero_max_age_directive_def)

lemma has_zero_max_age_directive_00: "has_zero_max_age_directive ''max-age=00''"
  by (simp add: has_zero_max_age_directive_def trim_def is_space_char_def
      zero_max_age_directive_00)

lemma no_zero_max_age_directive_x: "\<not> has_zero_max_age_directive ''x-max-age=0''"
  by (simp add: has_zero_max_age_directive_def trim_def is_space_char_def
      not_zero_max_age_directive_x)

lemma toLowerCase_00: "toLowerCase ''max-age=00'' = ''max-age=00''"
  by (simp add: toLowerCase_def lower_char_def)

lemma toLowerCase_x: "toLowerCase ''x-max-age=0'' = ''x-max-age=0''"
  by (simp add: toLowerCase_def lower_char_def)

lemma x_max_age_0_match: "max_age_zero_test ''x-max-age=0''"
  by (simp add: max_age_zero_test_def max_age_zero_here_def word_boundary_def word_at_def
      first_char_def is_word_char_def is_space_char_def)

lemma max_age_half_match: "max_age_zero_test ''max-age=0.5''"
  by (simp add: max_age_zero_test_def max_age_zero_here_def word_boundary_def word_at_def
      first_char_def is_word_char_def is_space_char_def)

lemma toLowerCase_half: "toLowerCase ''max-age=0.5'' = ''max-age=0.5''"
  by (simp add: toLowerCase_def lower_char_def)

lemma not_zero_max_age_directive_half: "\<not> zero_max_age_directive ''max-age=0.5''"
proof
  assume "zero_max_age_directive ''max-age=0.5''"
  then obtain ws1 ws2 zeros where
    d: "''=0.5'' = ws1 @ ''='' @ ws2 @ zeros" and w1: "list_all is_space_char ws1"
    and w2: "list_all is_space_char ws2" and z: "zeros \<noteq> []" "list_all (\<lambda>c. c = CHR ''0'') zeros"
    by (auto simp: zero_max_age_directive_def)
  from d w1 have "ws1 = []"
    by (cases ws1) (auto simp: is_space_char_def)
  with d have d2: "''0.5'' = ws2 @ zeros" by simp
  from d2 w2 have "ws2 = []"
    by (cases ws2) (auto simp: is_space_char_def)
  with d2 z show False by auto
qed

lemma claimed_cacheable_half: "claimed_cacheable ''max-age=0.5''"
  by (simp add: claimed_cacheable_def toLowerCase_half has_zero_max_age_directive_def trim_def
      is_space_char_def not_zero_max_age_directive_half includes_str_sublist [symmetric])

lemma not_caching_permitted_half: "\<not> caching_permitted ''max-age=0.5''"
  by (simp add: caching_permitted_def toLowerCase_half max_age_zero_test_iff [symmetric]
      max_age_half_match)

lemma claimed_cacheable_Nil: "claimed_cacheable []"
  by (simp add: claimed_cacheable_def toLowerCase_def has_zero_max_age_directive_def trim_def
      zero_max_age_directive_def)

lemma claimed_cacheable_x: "claimed_cacheable ''x-max-age=0''"
  by (simp add: claimed_cacheable_def toLowerCase_x no_zero_max_age_directive_x
      includes_str_sublist [symmetric])

lemma not_claimed_cacheable_00: "\<not> claimed_cacheable ''max-age=00''"
  by (simp add: claimed_cacheable_def toLowerCase_00 has_zero_max_age_directive_00)

lemma caching_permitted_00: "caching_permitted ''max-age=00''"
  by (simp add: caching_permitted_def toLowerCase_00 max_age_zero_test_iff [symmetric]
      max_age_00_no_match includes_str_sublist [symmetric])

lemma not_caching_permitted_x: "\<not> caching_permitted ''x-max-age=0''"
  by (simp add: caching_permitted_def toLowerCase_x max_age_zero_test_iff [symmetric]
      x_max_age_0_match)

subsection \<open>A directive written with the value 0 is always matched\<close>

lemma split_commas_not_Nil: "split_commas v \<noteq> []"
  by (induction v) (auto split: list.splits)

lemma split_commas_pieces:
  "(\<exists>b. v = hd (split_commas v) @ b \<and> (b = [] \<or> hd b = CHR '','')) \<and>
   (\<forall>p \<in> set (tl (split_commas v)).
      \<exists>a b. v = a @ p @ b \<and> a \<noteq> [] \<and> last a = CHR '','' \<and> (b = [] \<or> hd b = CHR '',''))"
proof (induction v)
  case Nil
  then show ?case by simp
next
  case (Cons c cs)
  obtain q qs where split: "split_commas cs = q # qs"
    using split_commas_not_Nil [of cs] by (cases "split_commas cs") auto
  from Cons split obtain b0 where head: "cs = q @ b0" "b0 = [] \<or> hd b0 = CHR '',''"
    by auto
  from Cons split have tail:
    "\<forall>p \<in> set qs. \<exists>a b. cs = a @ p @ b \<and> a \<noteq> [] \<and> last a = CHR '','' \<and>
        (b = [] \<or> hd b = CHR '','')"
    by simp
  show ?case
  proof (cases "c = CHR '',''")
    case True
    have "\<exists>a b. c # cs = a @ p @ b \<and> a \<noteq> [] \<and> last a = CHR '','' \<and> (b = [] \<or> hd b = CHR '','')"
      if "p \<in> set (q # qs)" for p
    proof (cases "p = q")
      case True
      with head \<open>c = CHR '',''\<close> have "c # cs = [c] @ p @ b0 \<and> [c] \<noteq> [] \<and> last [c] = CHR '','' \<and>
          (b0 = [] \<or> hd b0 = CHR '','')"
        by simp
      then show ?thesis by blast
    next
      case False
      with that have "p \<in> set qs" by simp
      with tail obtain a b where "cs = a @ p @ b" "a \<noteq> []" "last a = CHR '',''"
        "b = [] \<or> hd b = CHR '',''"
        by blast
      then have "c # cs = (c # a) @ p @ b \<and> c # a \<noteq> [] \<and> last (c # a) = CHR '','' \<and>
          (b = [] \<or> hd b = CHR '','')"
        by simp
      then show ?thesis by blast
    qed
    with True split show ?thesis by simp
  next
    case False
    have "\<exists>a b. c # cs = a @ p @ b \<and> a \<noteq> [] \<and> last a = CHR '','' \<and> (b = [] \<or> hd b = CHR '','')"
      if "p \<in> set qs" for p
    proof -
      from that tail obtain a b where "cs = a @ p @ b" "a \<noteq> []" "last a = CHR '',''"
        "b = [] \<or> hd b = CHR '',''"
        by blast
      then have "c # cs = (c # a) @ p @ b \<and> c # a \<noteq> [] \<and> last (c # a) = CHR '','' \<and>
          (b = [] \<or> hd b = CHR '','')"
        by simp
      then show ?thesis by blast
    qed
    with False split head show ?thesis by simp
  qed
qed

lemma split_commas_piece:
  assumes "p \<in> set (split_commas v)"
  shows "\<exists>a b. v = a @ p @ b \<and> (a = [] \<or> last a = CHR '','') \<and> (b = [] \<or> hd b = CHR '','')"
proof -
  obtain q qs where split: "split_commas v = q # qs"
    using split_commas_not_Nil [of v] by (cases "split_commas v") auto
  show ?thesis
  proof (cases "p = q")
    case True
    with split split_commas_pieces [of v] obtain b where
      "v = [] @ p @ b" "b = [] \<or> hd b = CHR '',''"
      by auto
    then show ?thesis by blast
  next
    case False
    with assms split have "p \<in> set (tl (split_commas v))" by simp
    with split_commas_pieces [of v] show ?thesis by blast
  qed
qed

lemma trim_inside:
  "\<exists>w1 w2. s = w1 @ trim s @ w2 \<and> list_all is_space_char w1 \<and> list_all is_space_char w2"
proof -
  define s' where "s' = dropWhile is_space_char s"
  have "s = takeWhile is_space_char s @ s'"
    by (simp add: s'_def)
  moreover have "rev s' = takeWhile is_space_char (rev s') @ dropWhile is_space_char (rev s')"
    by simp
  then have "s' = trim s @ rev (takeWhile is_space_char (rev s'))"
    unfolding trim_def s'_def by (metis rev_append rev_rev_ident)
  moreover have "list_all is_space_char (takeWhile is_space_char s)"
    "list_all is_space_char (rev (takeWhile is_space_char (rev s')))"
    by (auto simp: list_all_iff dest: set_takeWhileD)
  ultimately show ?thesis by metis
qed

lemma space_not_word: "is_space_char c \<Longrightarrow> \<not> is_word_char c"
  by (auto simp: is_space_char_def is_word_char_def)

lemma comma_not_word: "\<not> is_word_char CHR '',''"
  by (simp add: is_word_char_def)

lemma zero_max_age_directive_is_matched:
  assumes "d \<in> set (map trim (split_commas v))"
    and "d = ''max-age'' @ ws1 @ ''='' @ ws2 @ ''0''"
    and "list_all is_space_char ws1" and "list_all is_space_char ws2"
  shows "max_age_zero_pattern v"
proof -
  from assms(1) obtain p where p: "p \<in> set (split_commas v)" and d: "d = trim p"
    by auto
  from split_commas_piece [OF p] obtain a b where
    v: "v = a @ p @ b" and a: "a = [] \<or> last a = CHR '',''" and b: "b = [] \<or> hd b = CHR '',''"
    by blast
  from trim_inside [of p] d obtain w1 w2 where
    pw: "p = w1 @ d @ w2" and w1: "list_all is_space_char w1" and w2: "list_all is_space_char w2"
    by blast
  have before: "a @ w1 = [] \<or> \<not> is_word_char (last (a @ w1))"
  proof (cases "w1 = []")
    case True
    with a show ?thesis by (auto simp: comma_not_word)
  next
    case False
    with w1 have "is_space_char (last w1)"
      by (simp add: list_all_iff)
    with False show ?thesis by (simp add: space_not_word)
  qed
  have after: "w2 @ b = [] \<or> \<not> is_word_char (hd (w2 @ b))"
  proof (cases "w2 = []")
    case True
    with b show ?thesis by (auto simp: comma_not_word)
  next
    case False
    with w2 have "is_space_char (hd w2)"
      by (simp add: list_all_iff)
    with False show ?thesis by (simp add: space_not_word)
  qed
  have "v = (a @ w1) @ ''max-age'' @ ws1 @ ''='' @ ws2 @ ''0'' @ (w2 @ b)"
    using v pw assms(2) by simp
  with assms(3,4) before after show ?thesis
    unfolding max_age_zero_pattern_def by blast
qed

text \<open>
  Claim C5 as stated fails, in four ways. A response whose \<open>Cache-Control\<close> header is
  present with an empty value carries the header and none of the three forbidden
  directives, and \<open>putCache\<close> does not write it. The value \<open>max-age=00\<close> is a \<open>max-age\<close>
  directive equal to zero, and \<open>putCache\<close> writes the response. The values \<open>x-max-age=0\<close>
  and \<open>max-age=0.5\<close> have no \<open>max-age\<close> directive equal to zero, nor \<open>no-store\<close> or
  \<open>private\<close>, and \<open>putCache\<close> writes neither response.
\<close>

theorem putCache_claimed_policy_counterexample:
  "headers_get (resp_headers (plain_response [(''Cache-Control'', [])])) ''Cache-Control'' = Some [] \<and>
   claimed_cacheable [] \<and>
   putCache [] (fetch_request (image_url [])) (plain_response [(''Cache-Control'', [])]) = [] \<and>
   headers_get (resp_headers (plain_response [(''Cache-Control'', ''max-age=00'')])) ''Cache-Control'' =
     Some ''max-age=00'' \<and>
   \<not> claimed_cacheable ''max-age=00'' \<and>
   putCache [] (fetch_request (image_url [])) (plain_response [(''Cache-Control'', ''max-age=00'')]) =
     [(createCacheKey (req_url (fetch_request (image_url []))),
       plain_response [(''Cache-Control'', ''max-age=00'')])] \<and>
   headers_get (resp_headers (plain_response [(''Cache-Control'', ''x-max-age=0'')])) ''Cache-Control'' =
     Some ''x-max-age=0'' \<and>
   claimed_cacheable ''x-max-age=0'' \<and>
   putCache [] (fetch_request (image_url [])) (plain_response [(''Cache-Control'', ''x-max-age=0'')]) = [] \<and>
   headers_get (resp_headers (plain_response [(''Cache-Control'', ''max-age=0.5'')])) ''Cache-Control'' =
     Some ''max-age=0.5'' \<and>
   claimed_cacheable ''max-age=0.5'' \<and>
   putCache [] (fetch_request (image_url [])) (plain_response [(''Cache-Control'', ''max-age=0.5'')]) = []"
  by (simp add: putCache_cases plain_response_def headers_get_single claimed_cacheable_Nil
      claimed_cacheable_x not_claimed_cacheable_00 caching_permitted_00 not_caching_permitted_x
      claimed_cacheable_half not_caching_permitted_half)

text \<open>
  Claim C5, amended. \<open>putCache\<close> stores the response under the canonical cache key if
  and only if the response carries a \<open>Cache-Control\<close> header whose value is not empty
  and, lower-cased, contains neither \<open>no-store\<close> nor \<open>private\<close> nor a place where
  \<open>max-age\<close>, white space or none, \<open>=\<close>, white space or none, and the digit \<open>0\<close> stand
  with no word character right before \<open>max-age\<close> and none right after the \<open>0\<close>; in every
  other case it leaves the cache store as it is.
\<close>

theorem putCache_stores_iff:
  "((\<exists>v. headers_get (resp_headers resp) ''Cache-Control'' = Some v \<and> v \<noteq> [] \<and>
         caching_permitted v)
      \<longrightarrow> putCache cache req resp = (createCacheKey (req_url req), resp) # cache) \<and>
   (\<not> (\<exists>v. headers_get (resp_headers resp) ''Cache-Control'' = Some v \<and> v \<noteq> [] \<and>
           caching_permitted v)
      \<longrightarrow> putCache cache req resp = cache)"
  by (simp add: putCache_cases)

theorem putCache_stores_iff_witness:
  "headers_get (resp_headers (plain_response [(''Cache-Control'', ''Public, Max-Age=60'')]))
     ''Cache-Control'' = Some ''Public, Max-Age=60'' \<and>
   ''Public, Max-Age=60'' \<noteq> [] \<and> caching_permitted ''Public, Max-Age=60'' \<and>
   putCache [] (fetch_request (image_url []))
       (plain_response [(''Cache-Control'', ''Public, Max-Age=60'')]) =
     [(createCacheKey (req_url (fetch_request (image_url []))),
       plain_response [(''Cache-Control'', ''Public, Max-Age=60'')])] \<and>
   headers_get (resp_headers (plain_response [(''Cache-Control'', ''max-age = 0'')]))
     ''Cache-Control'' = Some ''max-age = 0'' \<and>
   \<not> caching_permitted ''max-age = 0'' \<and>
   putCache [] (fetch_request (image_url [])) (plain_response [(''Cache-Control'', ''max-age = 0'')])
     = []"
  using putCache_stores_iff
      [of "plain_response [(''Cache-Control'', ''Public, Max-Age=60'')]" "[]"
          "fetch_request (image_url [])"]
    putCache_stores_iff
      [of "plain_response [(''Cache-Control'', ''max-age = 0'')]" "[]"
          "fetch_request (image_url [])"]
  by (simp add: plain_response_def headers_get_single caching_permitted_example
      caching_forbidden_example)

section \<open>Properties of the Cache Key Normalizer\<close>

lemma compare_names_le: "(compare_names p q \<le> 0) = (fst p \<le> fst q)"
  by (auto simp: compare_names_def Let_def)

lemma insert_by_insort: "insert_by compare_names x ys = insort_key fst x ys"
  by (induction ys) (simp_all add: compare_names_le)

lemma array_sort_sort_key: "array_sort compare_names ps = sort_key fst ps"
  by (induction ps) (simp_all add: insert_by_insort)

lemma sort_key_same_groups:
  assumes "mset ps = mset qs"
    and "\<And>n. filter (\<lambda>p. fst p = n) ps = filter (\<lambda>p. fst p = n) qs"
  shows "sort_key fst ps = sort_key fst qs"
proof (rule properties_for_sort_key)
  show "mset (sort_key fst qs) = mset ps"
    using assms(1) by simp
  show "sorted (map fst (sort_key fst qs))"
    by simp
  fix k assume "k \<in> set (sort_key fst qs)"
  have flip: "(\<lambda>x. fst k = fst x) = (\<lambda>x. fst x = fst k)"
    by auto
  show "filter (\<lambda>x. fst k = fst x) (sort_key fst qs) = filter (\<lambda>x. fst k = fst x) ps"
    unfolding flip using assms(2) [of "fst k"] by (simp add: sort_key_stable)
qed

lemma clear_search_cong:
  assumes "url_scheme u1 = url_scheme u2" "url_username u1 = url_username u2"
    "url_password u1 = url_password u2" "url_host u1 = url_host u2" "url_port u1 = url_port u2"
    "url_path u1 = url_path u2" "url_fragment u1 = url_fragment u2"
  shows "clear_search u1 = clear_search u2"
  using assms by (cases u1; cases u2) (simp add: clear_search_def)

lemma str_append: "str (a @ b) = str a @ str b"
  by (simp add: str_def)

lemma percent_encode_x: "percent_encode urlencoded_set True (str ''x'') = str ''x''"
  by (simp add: str_def cu_def percent_encode_def encode_byte_def urlencoded_set_def
      is_alnum_def byte_of_def utf8_encode_def is_high_surrogate_def is_low_surrogate_def)

lemma percent_encode_1: "percent_encode urlencoded_set True (str ''1'') = str ''1''"
  by (simp add: str_def cu_def percent_encode_def encode_byte_def urlencoded_set_def
      is_alnum_def byte_of_def utf8_encode_def is_high_surrogate_def is_low_surrogate_def)

lemma percent_encode_2: "percent_encode urlencoded_set True (str ''2'') = str ''2''"
  by (simp add: str_def cu_def percent_encode_def encode_byte_def urlencoded_set_def
      is_alnum_def byte_of_def utf8_encode_def is_high_surrogate_def is_low_surrogate_def)

lemmas percent_encode_examples = percent_encode_x percent_encode_1 percent_encode_2

lemma array_sort_same_name:
  "array_sort compare_names [(n, v), (n, w)] = [(n, v), (n, w)]"
  by (simp add: compare_names_def)

lemma urlencoded_serialize_nonempty: "ps \<noteq> [] \<Longrightarrow> urlencoded_serialize ps \<noteq> []"
  by (induction ps rule: urlencoded_serialize.induct) (simp_all add: str_def)

lemma fold_searchParams_append:
  "fold (\<lambda>(key, val) n. searchParams_append n key val) qs n =
     (if qs = [] then n
      else n\<lparr>url_searchParams := url_searchParams n @ qs,
              url_query := Some (urlencoded_serialize (url_searchParams n @ qs))\<rparr>)"
proof (induction qs arbitrary: n)
  case Nil
  then show ?case by simp
next
  case (Cons q qs)
  obtain key val where q: "q = (key, val)" by (cases q)
  define n' where "n' = searchParams_append n key val"
  have step:
    "n' = n\<lparr>url_searchParams := url_searchParams n @ [(key, val)],
            url_query := Some (urlencoded_serialize (url_searchParams n @ [(key, val)]))\<rparr>"
    by (simp add: n'_def searchParams_append_def Let_def urlencoded_serialize_nonempty)
  have "fold (\<lambda>(key, val) n. searchParams_append n key val) (q # qs) n =
        fold (\<lambda>(key, val) n. searchParams_append n key val) qs n'"
    by (simp add: q n'_def)
  also have "\<dots> = (if qs = [] then n'
      else n'\<lparr>url_searchParams := url_searchParams n' @ qs,
              url_query := Some (urlencoded_serialize (url_searchParams n' @ qs))\<rparr>)"
    by (rule Cons.IH)
  also have "\<dots> = n\<lparr>url_searchParams := url_searchParams n @ q # qs,
              url_query := Some (urlencoded_serialize (url_searchParams n @ q # qs))\<rparr>"
    by (cases "qs = []") (simp_all add: step q)
  finally show ?case by simp
qed

lemma url_searchParams_clear_search: "url_searchParams (clear_search u) = []"
  by (simp add: clear_search_def Let_def split: url_path.splits)

lemma createCacheKey_sorted:
  "createCacheKey u =
     (let sortedParams = array_sort compare_names (url_searchParams u) in
      URL_toString
        (if sortedParams = [] then clear_search u
         else (clear_search u)\<lparr>url_searchParams := sortedParams,
                url_query := Some (urlencoded_serialize sortedParams)\<rparr>))"
  by (simp add: createCacheKey_def Let_def fold_searchParams_append
      url_searchParams_clear_search)

lemma array_sort_Nil_iff: "array_sort cmp ps = [] \<longleftrightarrow> ps = []"
proof (cases ps)
  case Nil
  then show ?thesis by simp
next
  case (Cons p qs)
  have "insert_by cmp x ys \<noteq> []" for x ys
    by (cases ys) simp_all
  with Cons show ?thesis by simp
qed

lemma createCacheKey_image_url:
  "createCacheKey (image_url ps) =
     str ''http://cdn.example/images/x.png'' @
     (if ps = [] then [] else str ''?'' @ urlencoded_serialize (array_sort compare_names ps))"
  by (simp add: createCacheKey_sorted Let_def array_sort_Nil_iff image_url_def clear_search_def
      URL_toString_def serialize_authority_def serialize_path_def str_def)

lemma createCacheKey_x12:
  "createCacheKey (image_url [(str ''x'', str ''1''), (str ''x'', str ''2'')]) =
     str ''http://cdn.example/images/x.png?x=1&x=2''"
  unfolding createCacheKey_image_url array_sort_same_name
  by (simp add: percent_encode_examples str_append [symmetric])

lemma createCacheKey_x21:
  "createCacheKey (image_url [(str ''x'', str ''2''), (str ''x'', str ''1'')]) =
     str ''http://cdn.example/images/x.png?x=2&x=1''"
  unfolding createCacheKey_image_url array_sort_same_name
  by (simp add: percent_encode_examples str_append [symmetric])

lemma str_x12_neq:
  "str ''http://cdn.example/images/x.png?x=1&x=2'' \<noteq>
   str ''http://cdn.example/images/x.png?x=2&x=1''"
  by (simp add: str_def cu_def)

text \<open>
  Claim C2 as stated fails: \<open>?x=1&x=2\<close> and \<open>?x=2&x=1\<close> carry the same multiset of
  pairs on the same scheme, host and path, and the sort, which compares names only and
  is stable, leaves each of them as it is.
\<close>

theorem createCacheKey_duplicate_names_counterexample:
  "url_scheme (image_url [(str ''x'', str ''1''), (str ''x'', str ''2'')]) =
     url_scheme (image_url [(str ''x'', str ''2''), (str ''x'', str ''1'')]) \<and>
   url_host (image_url [(str ''x'', str ''1''), (str ''x'', str ''2'')]) =
     url_host (image_url [(str ''x'', str ''2''), (str ''x'', str ''1'')]) \<and>
   url_path (image_url [(str ''x'', str ''1''), (str ''x'', str ''2'')]) =
     url_path (image_url [(str ''x'', str ''2''), (str ''x'', str ''1'')]) \<and>
   mset (url_searchParams (image_url [(str ''x'', str ''1''), (str ''x'', str ''2'')])) =
     mset (url_searchParams (image_url [(str ''x'', str ''2''), (str ''x'', str ''1'')])) \<and>
   createCacheKey (image_url [(str ''x'', str ''1''), (str ''x'', str ''2'')]) \<noteq>
     createCacheKey (image_url [(str ''x'', str ''2''), (str ''x'', str ''1'')])"
  unfolding createCacheKey_x12 createCacheKey_x21
  by (simp add: image_url_def str_x12_neq)

text \<open>
  The key is the whole serialised URL, so it also tells apart two URLs that differ in a
  component the claim does not name, here the fragment.
\<close>

lemma createCacheKey_keeps_fragment:
  "createCacheKey ((image_url [])\<lparr>url_fragment := Some (str ''a'')\<rparr>) \<noteq>
   createCacheKey (image_url [])"
  by (simp add: createCacheKey_sorted image_url_def clear_search_def URL_toString_def
      serialize_authority_def serialize_path_def str_def)

text \<open>
  Claim C2, amended. Two URLs that agree in every component but the query (scheme,
  credentials, host, port, path and fragment), whose queries carry the same multiset of
  pairs, and in which the pairs of each name occur in the same relative order, have the
  same canonical string.
\<close>

theorem createCacheKey_order_independent:
  assumes "url_scheme u1 = url_scheme u2" "url_username u1 = url_username u2"
    "url_password u1 = url_password u2" "url_host u1 = url_host u2" "url_port u1 = url_port u2"
    "url_path u1 = url_path u2" "url_fragment u1 = url_fragment u2"
    and "mset (url_searchParams u1) = mset (url_searchParams u2)"
    and "\<forall>name. filter (\<lambda>p. fst p = name) (url_searchParams u1) =
                 filter (\<lambda>p. fst p = name) (url_searchParams u2)"
  shows "createCacheKey u1 = createCacheKey u2"
proof -
  have "array_sort compare_names (url_searchParams u1) =
        array_sort compare_names (url_searchParams u2)"
    unfolding array_sort_sort_key using assms(8,9) by (intro sort_key_same_groups) auto
  moreover have "clear_search u1 = clear_search u2"
    using assms(1-7) by (rule clear_search_cong)
  ultimately show ?thesis
    by (simp add: createCacheKey_def)
qed


lemma str_w_neq_h: "str ''w'' \<noteq> str ''h''"
  by (simp add: str_def cu_def)

theorem createCacheKey_order_independent_witness:
  "url_scheme (image_url [(str ''w'', str ''1''), (str ''h'', str ''2''), (str ''w'', str ''3'')]) =
     url_scheme (image_url [(str ''h'', str ''2''), (str ''w'', str ''1''), (str ''w'', str ''3'')]) \<and>
   url_host (image_url [(str ''w'', str ''1''), (str ''h'', str ''2''), (str ''w'', str ''3'')]) =
     url_host (image_url [(str ''h'', str ''2''), (str ''w'', str ''1''), (str ''w'', str ''3'')]) \<and>
   url_path (image_url [(str ''w'', str ''1''), (str ''h'', str ''2''), (str ''w'', str ''3'')]) =
     url_path (image_url [(str ''h'', str ''2''), (str ''w'', str ''1''), (str ''w'', str ''3'')]) \<and>
   mset (url_searchParams (image_url [(str ''w'', str ''1''), (str ''h'', str ''2''), (str ''w'', str ''3'')])) =
     mset (url_searchParams (image_url [(str ''h'', str ''2''), (str ''w'', str ''1''), (str ''w'', str ''3'')])) \<and>
   (\<forall>name. filter (\<lambda>p. fst p = name)
              (url_searchParams (image_url [(str ''w'', str ''1''), (str ''h'', str ''2''), (str ''w'', str ''3'')])) =
            filter (\<lambda>p. fst p = name)
              (url_searchParams (image_url [(str ''h'', str ''2''), (str ''w'', str ''1''), (str ''w'', str ''3'')]))) \<and>
   createCacheKey (image_url [(str ''w'', str ''1''), (str ''h'', str ''2''), (str ''w'', str ''3'')]) =
     createCacheKey (image_url [(str ''h'', str ''2''), (str ''w'', str ''1''), (str ''w'', str ''3'')])"
  using createCacheKey_order_independent
    [of "image_url [(str ''w'', str ''1''), (str ''h'', str ''2''), (str ''w'', str ''3'')]"
        "image_url [(str ''h'', str ''2''), (str ''w'', str ''1''), (str ''w'', str ''3'')]"]
    str_w_neq_h
  by (auto simp: image_url_def)

section \<open>Properties of the Origin Gateway\<close>

text \<open>
  What a call of \<open>fetchFromOrigin\<close> can do: throw before any \<open>fetch\<close>, or make one
  \<open>fetch\<close> on the configured origin and hand on what it settles with.
\<close>

lemma fetchFromOrigin_outcomes:
  "(snd (fetchFromOrigin P net originUrl key params) = [] \<and>
    fst (fetchFromOrigin P net originUrl key params) \<in>
      {Inl (HTTPException 400 ''Invalid origin URL''), Inl type_error, Inl uri_error}) \<or>
   (\<exists>call transformUrl.
      snd (fetchFromOrigin P net originUrl key params) = [call] \<and>
      call = \<lparr>fetch_url = URL_toString transformUrl, fetch_method = ''GET'',
               fetch_timeout = 30000\<rparr> \<and>
      fst (fetchFromOrigin P net originUrl key params) =
        (case net call of
           Fulfilled resp \<Rightarrow> Inr resp
         | Rejected error \<Rightarrow>
             if instanceof_Error error \<and> error_name error = ''TimeoutError''
             then Inl (HTTPException 504 ''Gateway Timeout'')
             else Inl (HTTPException 502 ''Bad Gateway'')))"
proof (cases "encodeURIComponent key")
  case (Inl e)
  have "e = uri_error"
  proof -
    have "encode_points cps = Inl e \<Longrightarrow> e = uri_error" for cps
      by (induction cps rule: encode_points.induct) (auto split: sum.splits)
    with Inl show ?thesis by (simp add: encodeURIComponent_def)
  qed
  with Inl show ?thesis by (simp add: fetchFromOrigin_def)
next
  case (Inr encoded)
  show ?thesis
  proof (cases "new_URL P (str ''/transform/'' @ replace_2F encoded) (Some originUrl)")
    case None
    with Inr show ?thesis by (simp add: fetchFromOrigin_def)
  next
    case (Some parsed)
    show ?thesis
    proof (cases "new_URL P originUrl None")
      case None
      with Inr Some show ?thesis by (simp add: fetchFromOrigin_def)
    next
      case (Some configured)
      note conf = this
      show ?thesis
      proof (cases "URL_origin P (set_search P parsed (urlencoded_serialize params)) = URL_origin P configured")
        case False
        with Inr \<open>new_URL P (str ''/transform/'' @ replace_2F encoded) (Some originUrl) = Some parsed\<close> conf
        show ?thesis by (simp add: fetchFromOrigin_def)
      next
        case True
        with Inr \<open>new_URL P (str ''/transform/'' @ replace_2F encoded) (Some originUrl) = Some parsed\<close> conf
        show ?thesis
          by (auto simp: fetchFromOrigin_def Let_def ORIGIN_TIMEOUT_MS_def
              split: settled.splits)
      qed
    qed
  qed
qed


lemma encodeURIComponent_example: "encodeURIComponent (str ''x.png'') = Inr (str ''x.png'')"
  by (simp add: encodeURIComponent_def str_def cu_def is_high_surrogate_def
      is_low_surrogate_def uri_unreserved_def)

lemma replace_2F_example: "replace_2F (str ''x.png'') = str ''x.png''"
  by (simp add: str_def cu_def)

lemma transform_input: "str ''/transform/'' @ str ''x.png'' = str ''/transform/x.png''"
  by (simp add: str_def)

lemma str_neq_examples:
  "str ''/transform/x.png'' \<noteq> str ''http://origin.example''"
  "str ''http://origin.example'' \<noteq> str ''/transform/x.png''"
  "str ''example.com'' \<noteq> str ''http://origin.example''"
  "str ''mailto:ops@origin.example'' \<noteq> str ''http://origin.example''"
  "str ''mailto:ops@origin.example'' \<noteq> str ''/transform/x.png''"
  "str ''example.com'' \<noteq> str ''/transform/x.png''"
  "str ''example.com'' \<noteq> str ''mailto:ops@origin.example''"
  by (simp_all add: str_def cu_def)

lemma new_URL_transform:
  "new_URL example_platform (str ''/transform/x.png'') (Some (str ''http://origin.example'')) =
     Some transform_url"
  by (simp add: example_platform_def example_new_URL_def)

lemma new_URL_origin:
  "new_URL example_platform (str ''http://origin.example'') None = Some origin_url"
  by (simp add: example_platform_def example_new_URL_def)

lemma new_URL_no_scheme:
  "new_URL example_platform (str ''/transform/x.png'') (Some (str ''example.com'')) = None"
  by (simp add: example_platform_def example_new_URL_def str_neq_examples)

lemma new_URL_mailto:
  "new_URL example_platform (str ''mailto:ops@origin.example'') None = Some mailto_url"
  "new_URL example_platform (str ''/transform/x.png'') (Some (str ''mailto:ops@origin.example''))
     = None"
  by (simp_all add: example_platform_def example_new_URL_def str_neq_examples)

lemma scheme_examples:
  "str ''http'' \<noteq> str ''blob''" "str ''http'' \<noteq> str ''ftp''"
  by (simp_all add: str_def cu_def)

lemma URL_origin_examples:
  "URL_origin example_platform (set_search example_platform transform_url []) =
     str ''http://origin.example''"
  "URL_origin example_platform origin_url = str ''http://origin.example''"
  by (simp_all add: URL_origin_def set_search_def clear_search_def transform_url_def
      origin_url_def tuple_origin_def str_def cu_def)

lemma URL_toString_transform:
  "URL_toString (set_search example_platform transform_url []) =
     str ''http://origin.example/transform/x.png''"
  by (simp add: URL_toString_def set_search_def clear_search_def transform_url_def
      origin_url_def serialize_authority_def serialize_path_def str_def)

lemma fetchFromOrigin_example:
  "fetchFromOrigin example_platform net (str ''http://origin.example'') (str ''x.png'') [] =
     (case net transform_call of
        Fulfilled resp \<Rightarrow> (Inr resp, [transform_call])
      | Rejected error \<Rightarrow>
          if instanceof_Error error \<and> error_name error = ''TimeoutError''
          then (Inl (HTTPException 504 ''Gateway Timeout''), [transform_call])
          else (Inl (HTTPException 502 ''Bad Gateway''), [transform_call]))"
  unfolding transform_call_def
  by (simp add: fetchFromOrigin_def encodeURIComponent_example replace_2F_example
      transform_input new_URL_transform new_URL_origin URL_origin_examples
      URL_toString_transform ORIGIN_TIMEOUT_MS_def Let_def)

text \<open>
  Outside the content keys and the base URLs of an origin server the gateway throws what
  the platform throws, before any call: the \<open>TypeError\<close> of \<open>new URL\<close> for a configured
  value that is no URL or no base for a path, the \<open>URIError\<close> of \<open>encodeURIComponent\<close> for a
  key with an unpaired surrogate.
\<close>

lemma fetchFromOrigin_no_scheme:
  "fetchFromOrigin example_platform net (str ''example.com'') (str ''x.png'') [] =
     (Inl type_error, [])"
  by (simp add: fetchFromOrigin_def encodeURIComponent_example replace_2F_example
      transform_input new_URL_no_scheme)

lemma fetchFromOrigin_mailto:
  "fetchFromOrigin example_platform net (str ''mailto:ops@origin.example'') (str ''x.png'') [] =
     (Inl type_error, [])"
  by (simp add: fetchFromOrigin_def encodeURIComponent_example replace_2F_example
      transform_input new_URL_mailto)

lemma fetchFromOrigin_lone_surrogate:
  "fetchFromOrigin P net originUrl [0xD800] params = (Inl uri_error, [])"
  by (simp add: fetchFromOrigin_def encodeURIComponent_def is_high_surrogate_def)

subsection \<open>A content key is encoded to itself\<close>










subsection \<open>The origin check\<close>












text \<open>
  Claim C3. When \<open>fetchFromOrigin\<close> has dispatched its request, a \<open>GET\<close> with the bound of
  30000 milliseconds: a rejection with an \<open>Error\<close> named \<open>TimeoutError\<close> reaches the caller
  as 504 Gateway Timeout, every other rejection as 502 Bad Gateway, and a response is
  returned as it is.
\<close>

theorem fetchFromOrigin_maps_failures:
  assumes "snd (fetchFromOrigin P net originUrl key params) = [call]"
  shows "fetch_method call = ''GET'' \<and> fetch_timeout call = 30000 \<and>
     (\<forall>error. net call = Rejected error \<longrightarrow>
        fst (fetchFromOrigin P net originUrl key params) =
          (if instanceof_Error error \<and> error_name error = ''TimeoutError''
           then Inl (HTTPException 504 ''Gateway Timeout'')
           else Inl (HTTPException 502 ''Bad Gateway''))) \<and>
     (\<forall>resp. net call = Fulfilled resp \<longrightarrow>
        fst (fetchFromOrigin P net originUrl key params) = Inr resp)"
proof -
  let ?r = "fetchFromOrigin P net originUrl key params"
  from fetchFromOrigin_outcomes [of P net originUrl key params] assms
  obtain transformUrl where
    call: "call = \<lparr>fetch_url = URL_toString transformUrl, fetch_method = ''GET'',
                     fetch_timeout = 30000\<rparr>"
    and res: "fst ?r = (case net call of
           Fulfilled resp \<Rightarrow> Inr resp
         | Rejected error \<Rightarrow>
             if instanceof_Error error \<and> error_name error = ''TimeoutError''
             then Inl (HTTPException 504 ''Gateway Timeout'')
             else Inl (HTTPException 502 ''Bad Gateway''))"
    by auto
  from call have "fetch_method call = ''GET''" "fetch_timeout call = 30000"
    by simp_all
  with res show ?thesis by simp
qed

theorem fetchFromOrigin_maps_failures_witness:
  "snd (fetchFromOrigin example_platform (origin_fails (ErrorObj ''TimeoutError'' ''The operation timed out''))
          (str ''http://origin.example'') (str ''x.png'') []) = [transform_call] \<and>
   origin_fails (ErrorObj ''TimeoutError'' ''The operation timed out'') transform_call =
     Rejected (ErrorObj ''TimeoutError'' ''The operation timed out'') \<and>
   fst (fetchFromOrigin example_platform (origin_fails (ErrorObj ''TimeoutError'' ''The operation timed out''))
          (str ''http://origin.example'') (str ''x.png'') []) =
     Inl (HTTPException 504 ''Gateway Timeout'') \<and>
   snd (fetchFromOrigin example_platform (origin_fails (ErrorObj ''TypeError'' ''Network connection lost''))
          (str ''http://origin.example'') (str ''x.png'') []) = [transform_call] \<and>
   fst (fetchFromOrigin example_platform (origin_fails (ErrorObj ''TypeError'' ''Network connection lost''))
          (str ''http://origin.example'') (str ''x.png'') []) =
     Inl (HTTPException 502 ''Bad Gateway'') \<and>
   snd (fetchFromOrigin example_platform (origin_answers (plain_response []))
          (str ''http://origin.example'') (str ''x.png'') []) = [transform_call] \<and>
   fst (fetchFromOrigin example_platform (origin_answers (plain_response []))
          (str ''http://origin.example'') (str ''x.png'') []) = Inr (plain_response [])"
  using fetchFromOrigin_maps_failures
      [of example_platform "origin_fails (ErrorObj ''TimeoutError'' ''The operation timed out'')"
          "str ''http://origin.example''" "str ''x.png''" "[]" transform_call]
    fetchFromOrigin_maps_failures
      [of example_platform "origin_fails (ErrorObj ''TypeError'' ''Network connection lost'')"
          "str ''http://origin.example''" "str ''x.png''" "[]" transform_call]
    fetchFromOrigin_maps_failures
      [of example_platform "origin_answers (plain_response [])"
          "str ''http://origin.example''" "str ''x.png''" "[]" transform_call]
  by (simp add: fetchFromOrigin_example origin_answers_def origin_fails_def)

section \<open>Properties of the read path\<close>

lemma get_scheduled_cases:
  "get_scheduled (get_images P net ORIGIN_URL cache req) = [] \<or>
   (\<exists>key r. extractKeyFromPath (req_path req) = Some key \<and> validateKey key \<and>
      matchCache cache req = None \<and>
      fst (fetchFromOrigin P net ORIGIN_URL key (url_searchParams (req_url req))) = Inr r \<and>
      ok r \<and> get_scheduled (get_images P net ORIGIN_URL cache req) = [(req, r)])"
  by (auto simp: get_images_def Let_def split: option.splits prod.splits sum.splits)

lemma get_scheduled_not_ok:
  assumes "extractKeyFromPath (req_path req) = Some key"
    and "fst (fetchFromOrigin P net ORIGIN_URL key (url_searchParams (req_url req))) = Inr r"
    and "\<not> ok r"
  shows "get_scheduled (get_images P net ORIGIN_URL cache req) = []"
  using get_scheduled_cases [of P net ORIGIN_URL cache req] assms by auto

lemma extractKeyFromPath_fetch_request:
  "extractKeyFromPath (req_path (fetch_request u)) = Some (str ''x.png'')"
  by (simp add: fetch_request_def extractKeyFromPath_example)

lemma fetch_404:
  "fetchFromOrigin example_platform (origin_answers r) (str ''http://origin.example'')
     (str ''x.png'') (url_searchParams (req_url (fetch_request (image_url [])))) =
   (Inr r, [transform_call])"
  by (simp add: fetch_request_def image_url_def fetchFromOrigin_example origin_answers_def)

lemma putCache_cacheable_404:
  "putCache [] (fetch_request (image_url [])) cacheable_404 \<noteq> []"
  by (simp add: putCache_cases cacheable_404_def headers_get_single caching_permitted_example)

lemma get_images_200:
  "get_scheduled (get_images example_platform (origin_answers (plain_response []))
      (str ''http://origin.example'') [] (fetch_request (image_url []))) =
   [(fetch_request (image_url []), plain_response [])]"
  by (simp add: get_images_def extractKeyFromPath_fetch_request validateKey_example
      matchCache_def cache_match_def fetch_404 new_Response_def plain_response_def ok_def)

text \<open>
  Claim C9. On the GET path every scheduled write-back is for this request and for the
  response of the origin, whose status is in the 2xx range; when the origin answers
  with any other status nothing is scheduled and the cache store is unchanged, also
  for a response whose \<open>Cache-Control\<close> header would let \<open>putCache\<close> store it.
\<close>

theorem write_back_only_when_ok:
  "(\<forall>task \<in> set (get_scheduled (get_images P net ORIGIN_URL cache req)).
      fst task = req \<and> ok (snd task) \<and>
      (\<exists>key. extractKeyFromPath (req_path req) = Some key \<and>
         fst (fetchFromOrigin P net ORIGIN_URL key (url_searchParams (req_url req))) =
           Inr (snd task))) \<and>
   (\<forall>key r. extractKeyFromPath (req_path req) = Some key \<and>
      fst (fetchFromOrigin P net ORIGIN_URL key (url_searchParams (req_url req))) = Inr r \<and>
      \<not> ok r \<longrightarrow>
        get_scheduled (get_images P net ORIGIN_URL cache req) = [] \<and>
        run_scheduled cache (get_scheduled (get_images P net ORIGIN_URL cache req)) = cache)"
proof (intro conjI allI impI ballI)
  fix task
  assume "task \<in> set (get_scheduled (get_images P net ORIGIN_URL cache req))"
  with get_scheduled_cases [of P net ORIGIN_URL cache req]
  obtain key r where "extractKeyFromPath (req_path req) = Some key"
    "fst (fetchFromOrigin P net ORIGIN_URL key (url_searchParams (req_url req))) = Inr r"
    "ok r" "task = (req, r)"
    by auto
  then show "fst task = req" "ok (snd task)"
    "\<exists>key. extractKeyFromPath (req_path req) = Some key \<and>
       fst (fetchFromOrigin P net ORIGIN_URL key (url_searchParams (req_url req))) =
         Inr (snd task)"
    by auto
next
  fix key r
  assume a: "extractKeyFromPath (req_path req) = Some key \<and>
      fst (fetchFromOrigin P net ORIGIN_URL key (url_searchParams (req_url req))) = Inr r \<and>
      \<not> ok r"
  then show e: "get_scheduled (get_images P net ORIGIN_URL cache req) = []"
    using get_scheduled_not_ok by blast
  then show "run_scheduled cache (get_scheduled (get_images P net ORIGIN_URL cache req)) = cache"
    by (simp add: run_scheduled_def)
qed

theorem write_back_only_when_ok_witness:
  "extractKeyFromPath (req_path (fetch_request (image_url []))) = Some (str ''x.png'') \<and>
   fst (fetchFromOrigin example_platform (origin_answers cacheable_404)
          (str ''http://origin.example'') (str ''x.png'')
          (url_searchParams (req_url (fetch_request (image_url []))))) = Inr cacheable_404 \<and>
   \<not> ok cacheable_404 \<and>
   putCache [] (fetch_request (image_url [])) cacheable_404 \<noteq> [] \<and>
   get_scheduled (get_images example_platform (origin_answers cacheable_404)
      (str ''http://origin.example'') [] (fetch_request (image_url []))) = [] \<and>
   run_scheduled []
     (get_scheduled (get_images example_platform (origin_answers cacheable_404)
        (str ''http://origin.example'') [] (fetch_request (image_url [])))) = [] \<and>
   get_scheduled (get_images example_platform (origin_answers (plain_response []))
      (str ''http://origin.example'') [] (fetch_request (image_url []))) =
     [(fetch_request (image_url []), plain_response [])] \<and>
   ok (plain_response [])"
  using write_back_only_when_ok
      [of example_platform "origin_answers cacheable_404" "str ''http://origin.example''" "[]"
          "fetch_request (image_url [])"]
    write_back_only_when_ok
      [of example_platform "origin_answers (plain_response [])" "str ''http://origin.example''"
          "[]" "fetch_request (image_url [])"]
    putCache_cacheable_404
  by (simp add: extractKeyFromPath_fetch_request fetch_404 get_images_200)
    (simp add: ok_def cacheable_404_def run_scheduled_def)

end
